theory Spec2Isabelle
  imports Main
begin

section \<open>Errors\<close>

text \<open>
  Anything that can be thrown or carried in an \<open>error\<close> field is identified by a
  message.
\<close>

type_synonym error = string

section \<open>Entity schema: ChannelInfo\<close>

text \<open>
  The class \<open>ChannelInfo\<close> extends the class \<open>Model\<close> of the library
  \<open>@nozbe/watermelondb\<close>, and its seven members are declared with the library's
  decorators \<open>@field\<close> and \<open>@relation\<close> (lines 39 to 57).  Reading or assigning
  such a member goes through the accessor that the decorator installs for the named
  column, so an assignment can throw.  The library is not part of the sources: the
  superclass constructor and the accessors are parameters, over whatever the library
  keeps as the state of an object.  \<open>CHANNEL\<close> is the table name
  \<open>MM_TABLES.SERVER.CHANNEL\<close>.
\<close>

datatype JSValue = JSUndefined | JSString string | JSNumber int | JSObject "(string \<times> string) list"

record 'obj WatermelonDB =
  Model_constructor :: "error + 'obj"
  field_get :: "string \<Rightarrow> 'obj \<Rightarrow> error + JSValue"
  field_set :: "string \<Rightarrow> JSValue \<Rightarrow> 'obj \<Rightarrow> error + 'obj"
  relation_get :: "string \<Rightarrow> string \<Rightarrow> 'obj \<Rightarrow> error + JSValue"
  relation_set :: "string \<Rightarrow> string \<Rightarrow> JSValue \<Rightarrow> 'obj \<Rightarrow> error + 'obj"
  CHANNEL :: string

text \<open>The members, as declared: \<open>@field('channel_id') channelId\<close> and so on.\<close>

definition get_channelId :: "'obj WatermelonDB \<Rightarrow> 'obj \<Rightarrow> error + JSValue" where
  "get_channelId lib this = field_get lib ''channel_id'' this"

definition set_channelId :: "'obj WatermelonDB \<Rightarrow> JSValue \<Rightarrow> 'obj \<Rightarrow> error + 'obj" where
  "set_channelId lib v this = field_set lib ''channel_id'' v this"

definition get_guestCount :: "'obj WatermelonDB \<Rightarrow> 'obj \<Rightarrow> error + JSValue" where
  "get_guestCount lib this = field_get lib ''guest_count'' this"

definition set_guestCount :: "'obj WatermelonDB \<Rightarrow> JSValue \<Rightarrow> 'obj \<Rightarrow> error + 'obj" where
  "set_guestCount lib v this = field_set lib ''guest_count'' v this"

definition get_header :: "'obj WatermelonDB \<Rightarrow> 'obj \<Rightarrow> error + JSValue" where
  "get_header lib this = field_get lib ''header'' this"

definition set_header :: "'obj WatermelonDB \<Rightarrow> JSValue \<Rightarrow> 'obj \<Rightarrow> error + 'obj" where
  "set_header lib v this = field_set lib ''header'' v this"

definition get_memberCount :: "'obj WatermelonDB \<Rightarrow> 'obj \<Rightarrow> error + JSValue" where
  "get_memberCount lib this = field_get lib ''member_count'' this"

definition set_memberCount :: "'obj WatermelonDB \<Rightarrow> JSValue \<Rightarrow> 'obj \<Rightarrow> error + 'obj" where
  "set_memberCount lib v this = field_set lib ''member_count'' v this"

definition get_pinPostCount :: "'obj WatermelonDB \<Rightarrow> 'obj \<Rightarrow> error + JSValue" where
  "get_pinPostCount lib this = field_get lib ''pin_post_count'' this"

definition set_pinPostCount :: "'obj WatermelonDB \<Rightarrow> JSValue \<Rightarrow> 'obj \<Rightarrow> error + 'obj" where
  "set_pinPostCount lib v this = field_set lib ''pin_post_count'' v this"

definition get_purpose :: "'obj WatermelonDB \<Rightarrow> 'obj \<Rightarrow> error + JSValue" where
  "get_purpose lib this = field_get lib ''purpose'' this"

definition set_purpose :: "'obj WatermelonDB \<Rightarrow> JSValue \<Rightarrow> 'obj \<Rightarrow> error + 'obj" where
  "set_purpose lib v this = field_set lib ''purpose'' v this"

definition get_channel :: "'obj WatermelonDB \<Rightarrow> 'obj \<Rightarrow> error + JSValue" where
  "get_channel lib this = relation_get lib (CHANNEL lib) ''channel_id'' this"

definition set_channel :: "'obj WatermelonDB \<Rightarrow> JSValue \<Rightarrow> 'obj \<Rightarrow> error + 'obj" where
  "set_channel lib v this = relation_set lib (CHANNEL lib) ''channel_id'' v this"

text \<open>
  The constructor: \<open>super()\<close>, then the seven assignments in source order.  The
  first statement that throws ends it, and then no object is constructed (\<open>Inl\<close>).
\<close>

definition ChannelInfo_constructor :: "'obj WatermelonDB \<Rightarrow> error + 'obj" where
  "ChannelInfo_constructor lib =
     (case Model_constructor lib of Inl e \<Rightarrow> Inl e | Inr this \<Rightarrow>
      (case set_channelId lib (JSString '''') this of Inl e \<Rightarrow> Inl e | Inr this \<Rightarrow>
      (case set_guestCount lib (JSNumber 0) this of Inl e \<Rightarrow> Inl e | Inr this \<Rightarrow>
      (case set_header lib (JSString '''') this of Inl e \<Rightarrow> Inl e | Inr this \<Rightarrow>
      (case set_memberCount lib (JSNumber 0) this of Inl e \<Rightarrow> Inl e | Inr this \<Rightarrow>
      (case set_pinPostCount lib (JSNumber 0) this of Inl e \<Rightarrow> Inl e | Inr this \<Rightarrow>
      (case set_purpose lib (JSString '''') this of Inl e \<Rightarrow> Inl e | Inr this \<Rightarrow>
      (case set_channel lib (JSObject []) this of Inl e \<Rightarrow> Inl e | Inr this \<Rightarrow>
       Inr this))))))))"

section \<open>Remote reconciliation layer: data\<close>

text \<open>
  A user profile as received from the server.  JavaScript compares objects by
  reference, and \<open>new Set(users)\<close> relies on that, so a profile carries its object
  identity in \<open>ref\<close>: two profiles are the same object exactly when they are equal
  as records.  The source's field \<open>id\<close> is \<open>id'\<close> here.
\<close>

record UserProfile =
  ref :: nat
  id' :: string
  roles :: string

text \<open>
  Payloads whose fields the code never reads are represented by their JSON text;
  \<open>JSON.stringify\<close> of such a payload is that text.
\<close>

type_synonym Team = string
type_synonym PreferenceType = string
type_synonym Role = string
type_synonym ClientConfig = string
type_synonym ClientLicense = string
type_synonym Raw = string
type_synonym Model = string
type_synonym Database = string

record TeamMembership =
  team_id :: string
  roles :: string

record TeamUnread =
  team_id :: string
  msg_count :: int
  mention_count :: int

record MyTeam =
  id' :: string
  roles :: string
  is_unread :: bool
  mentions_count :: int

text \<open>
  The keys \<open>Database.SYSTEM_IDENTIFIERS\<close> that loadMe uses, and a key/value row
  (the source's field \<open>value\<close> is \<open>val\<close> here).
\<close>

datatype SYSTEM_IDENTIFIERS = CONFIG | LICENSE | CURRENT_USER_ID

record IdValue =
  id' :: SYSTEM_IDENTIFIERS
  val :: string

text \<open>
  The local record of a user (\<open>UserModel\<close>): the raw row that \<open>updateMe\<close>
  sends out (\<open>_raw\<close> in the source), and the role string stored before the update.
\<close>

record UserModel =
  raw :: Raw
  roles :: string

record LoadMeArgs =
  deviceToken :: "string option"
  user :: "UserProfile option"

subsection \<open>Result shapes\<close>

text \<open>An absent or \<open>undefined\<close> property is \<open>None\<close>.\<close>

record MyUserRequest =
  user :: "UserProfile option"
  error :: "error option"

record ProfilesInChannelRequest =
  users :: "UserProfile list option"
  channelId :: string
  error :: "error option"

record ProfilesPerChannelRequest =
  data :: "ProfilesInChannelRequest list option"
  error :: "error option"

record LoadMeResult =
  error :: "error option"
  currentUser :: "UserProfile option"

record UpdateMeResult =
  data :: "UserProfile option"
  error :: "error option"

subsection \<open>Collaborators\<close>

text \<open>
  The network client, the store operator and the other imported modules are not part
  of the source; they are parameters.  An asynchronous method is given by the settled
  outcome of the promise it returns: \<open>Inl e\<close> when it rejects with \<open>e\<close>, \<open>Inr v\<close>
  when it fulfils with \<open>v\<close>.  A collaborator answers as a function of its
  arguments.  \<open>getRolesByNames\<close> may fulfil with \<open>undefined\<close> (the source guards
  with \<open>?.\<close>), and \<open>patchMe\<close> with a falsy value (the source tests \<open>if (data)\<close>).
\<close>

record Client =
  getMe :: "error + UserProfile"
  getProfilesInChannel :: "string \<Rightarrow> error + UserProfile list"
  attachDevice :: "string \<Rightarrow> error + unit"
  getMyTeams :: "error + Team list"
  getMyTeamMembers :: "error + TeamMembership list"
  getMyTeamUnreads :: "error + TeamUnread list"
  getMyPreferences :: "error + PreferenceType list"
  getClientConfigOld :: "error + ClientConfig"
  getClientLicenseOld :: "error + ClientLicense"
  getRolesByNames :: "string list \<Rightarrow> error + Role list option"
  patchMe :: "Raw \<Rightarrow> error + UserProfile option"

text \<open>
  Each \<open>handle...\<close> method takes its payload and the flag \<open>prepareRecordsOnly\<close>.
\<close>

record ServerDataOperator =
  handleUsers :: "UserProfile list \<Rightarrow> bool \<Rightarrow> error + Model list"
  handleTeam :: "Team list \<Rightarrow> bool \<Rightarrow> error + Model list"
  handleTeamMemberships :: "TeamMembership list \<Rightarrow> bool \<Rightarrow> error + Model list"
  handleMyTeam :: "MyTeam list \<Rightarrow> bool \<Rightarrow> error + Model list"
  handleSystem :: "IdValue list \<Rightarrow> bool \<Rightarrow> error + Model list"
  handlePreferences :: "PreferenceType list \<Rightarrow> bool \<Rightarrow> error + Model list"
  handleRole :: "Role list \<Rightarrow> bool \<Rightarrow> error + Model list"
  batchRecords :: "Model list \<Rightarrow> error + unit"

text \<open>
  An entry of \<open>DatabaseManager.serverDatabases\<close> holds a database and its operator
  together.
\<close>

record ServerDatabase =
  database :: Database
  operator :: ServerDataOperator

record AnalyticsClient =
  setUserId :: "string \<Rightarrow> error + unit"
  setUserRoles :: "string \<Rightarrow> error + unit"

text \<open>
  The process-wide registries and the imported functions.  \<open>prepareUsers\<close> returns
  either a falsy value (\<open>None\<close>) or a promise of models.
\<close>

record world =
  NetworkManager_getClient :: "string \<Rightarrow> error + Client"
  DatabaseManager_serverDatabases :: "string \<rightharpoonup> ServerDatabase"
  forceLogoutIfNecessary :: "string \<Rightarrow> error \<Rightarrow> error + unit"
  prepareUsers :: "ServerDataOperator \<Rightarrow> UserProfile list \<Rightarrow> (error + Model list) option"
  fetchRolesIfNeeded :: "string \<Rightarrow> string list \<Rightarrow> error + unit"
  logError :: "error \<Rightarrow> error + unit"
  analytics_create :: "string \<Rightarrow> error + AnalyticsClient"

subsection \<open>Observable effects\<close>

text \<open>Every call made to a collaborator, with its arguments.\<close>

datatype event =
    Client_getMe
  | Client_getProfilesInChannel string
  | Client_attachDevice string
  | Client_getMyTeams
  | Client_getMyTeamMembers
  | Client_getMyTeamUnreads
  | Client_getMyPreferences
  | Client_getClientConfigOld
  | Client_getClientLicenseOld
  | Client_getRolesByNames "string list"
  | Client_patchMe Raw
  | Operator_handleUsers "UserProfile list" bool
  | Operator_handleTeam "Team list" bool
  | Operator_handleTeamMemberships "TeamMembership list" bool
  | Operator_handleMyTeam "MyTeam list" bool
  | Operator_handleSystem "IdValue list" bool
  | Operator_handlePreferences "PreferenceType list" bool
  | Operator_handleRole "Role list" bool
  | Operator_batchRecords "Model list"
  | PrepareUsers "UserProfile list"
  | ForceLogoutIfNecessary string error
  | FetchRolesIfNeeded string "string list"
  | LogError error
  | Analytics_create string
  | Analytics_setUserId string
  | Analytics_setUserRoles string

text \<open>
  A computation yields its outcome and the calls it made, in order.  The outcome
  \<open>Inl e\<close> is an exception \<open>e\<close> in flight (for an \<open>async\<close> function: the promise
  rejects with \<open>e\<close>); \<open>Inr v\<close> is normal completion with \<open>v\<close>.
\<close>

type_synonym 'a io = "(error + 'a) \<times> event list"

definition io_return :: "'a \<Rightarrow> 'a io" where
  "io_return x = (Inr x, [])"

definition io_bind :: "'a io \<Rightarrow> ('a \<Rightarrow> 'b io) \<Rightarrow> 'b io" where
  "io_bind m f =
     (case m of
        (Inl e, t) \<Rightarrow> (Inl e, t)
      | (Inr x, t) \<Rightarrow> (case f x of (r, t') \<Rightarrow> (r, t @ t')))"

definition try_catch :: "'a io \<Rightarrow> (error \<Rightarrow> 'a io) \<Rightarrow> 'a io" where
  "try_catch m h =
     (case m of
        (Inl e, t) \<Rightarrow> (case h e of (r, t') \<Rightarrow> (r, t @ t'))
      | (Inr x, t) \<Rightarrow> (Inr x, t))"

text \<open>
  \<open>invoke ev v\<close>: a call that is recorded and hands back \<open>v\<close> at once; for an
  asynchronous collaborator \<open>v\<close> is the promise.  \<open>await p\<close> waits for a promise:
  a rejection is thrown.  \<open>call\<close> is a call that is awaited on the spot, or a
  synchronous call that may throw.
\<close>

definition invoke :: "event \<Rightarrow> 'a \<Rightarrow> 'a io" where
  "invoke ev v = (Inr v, [ev])"

definition await :: "error + 'a \<Rightarrow> 'a io" where
  "await p = (p, [])"

definition call :: "event \<Rightarrow> error + 'a \<Rightarrow> 'a io" where
  "call ev p = io_bind (invoke ev p) await"

text \<open>
  \<open>Promise.all\<close> over computations already started: every one of them runs (its
  calls are made), and the join rejects when one of them rejects.  Which rejection
  wins is a matter of timing; the model takes the first in array order.  The calls of
  the computations interleave in the source: each one runs up to its first
  \<open>await\<close> when it is started, so all the requests go out first, and what follows
  a response (a \<open>catch\<close> block, say) comes later in an order that depends on
  timing.  The model does not represent that interleaving: it keeps the calls of each
  computation together, in array order.  It says which calls are made and in what
  order within one computation, not their order across computations.
\<close>

fun Promise_all :: "'a io list \<Rightarrow> 'a list io" where
  "Promise_all [] = (Inr [], [])"
| "Promise_all ((r, t) # ps) =
     (case Promise_all ps of
        (rs, ts) \<Rightarrow>
          ((case r of
              Inl e \<Rightarrow> Inl e
            | Inr x \<Rightarrow> (case rs of Inl e \<Rightarrow> Inl e | Inr xs \<Rightarrow> Inr (x # xs))),
           t @ ts))"

subsection \<open>JavaScript library functions\<close>

text \<open>
  A \<open>Set\<close> is the list of its elements in insertion order; \<open>add\<close> leaves the set
  alone when the element is already in it.  \<open>Array.from\<close> of a set is that list.
\<close>

definition Set_add :: "'a list \<Rightarrow> 'a \<Rightarrow> 'a list" where
  "Set_add s x = (if x \<in> set s then s else s @ [x])"

definition new_Set :: "'a list \<Rightarrow> 'a list" where
  "new_Set xs = foldl Set_add [] xs"

text \<open>
  \<open>s.split(sep)\<close> for a one-character separator: the pieces between the
  separators, empty pieces included, so the result is never empty
  (\<open>.split()\<close> is \<open>[]\<close>).
\<close>

fun String_split :: "char \<Rightarrow> string \<Rightarrow> string list" where
  "String_split sep [] = [[]]"
| "String_split sep (c # cs) =
     (if c = sep then [] # String_split sep cs
      else (case String_split sep cs of
              [] \<Rightarrow> [[c]]
            | piece # pieces \<Rightarrow> (c # piece) # pieces))"

section \<open>Remote reconciliation layer: operations\<close>

text \<open>
  Each function of \<open>user.ts\<close> takes the world as an extra first argument and
  yields its outcome together with the calls it made.  A parameter or local variable
  of the source whose name is also the name of a record field is written with a prime
  (\<open>channelId'\<close>, \<open>user'\<close>, \<open>currentUser'\<close>, \<open>data'\<close>), and the
  local \<open>operator\<close> is \<open>op\<close> where it is a parameter.
\<close>

subsection \<open>fetchMe\<close>

text \<open>
  The upsert of \<open>fetchMe\<close> is not awaited: the call is made and its promise is
  dropped.  The logout check in the handler is awaited.
\<close>

definition fetchMe :: "world \<Rightarrow> string \<Rightarrow> bool \<Rightarrow> MyUserRequest io" where
  "fetchMe w serverUrl fetchOnly =
     (case NetworkManager_getClient w serverUrl of
        Inl err \<Rightarrow> io_return \<lparr>user = None, error = Some err\<rparr>
      | Inr client \<Rightarrow>
          try_catch
            (io_bind (call Client_getMe (getMe client)) (\<lambda>user.
             io_bind
               (if \<not> fetchOnly then
                  (case DatabaseManager_serverDatabases w serverUrl of
                     Some sdb \<Rightarrow>
                       io_bind
                         (invoke (Operator_handleUsers [user] False)
                            (handleUsers (operator sdb) [user] False))
                         (\<lambda>_. io_return ())
                   | None \<Rightarrow> io_return ())
                else io_return ()) (\<lambda>_.
             io_return \<lparr>user = Some user, error = None\<rparr>)))
            (\<lambda>err.
               io_bind
                 (call (ForceLogoutIfNecessary serverUrl err)
                    (forceLogoutIfNecessary w serverUrl err)) (\<lambda>_.
               io_return \<lparr>user = None, error = Some err\<rparr>)))"

subsection \<open>fetchProfilesInChannel and fetchProfilesPerChannels\<close>

text \<open>
  The filter \<open>(u) => u.id !== excludeUserId\<close>; an \<open>excludeUserId\<close> that was not
  supplied is \<open>undefined\<close>, which no id equals.
\<close>

definition not_excluded :: "string option \<Rightarrow> UserProfile \<Rightarrow> bool" where
  "not_excluded excludeUserId u = (Some (UserProfile.id' u) \<noteq> excludeUserId)"

text \<open>
  Both functions end their store branch with the same statements: call
  \<open>prepareUsers\<close>; when it returned a promise, await the models, and commit them
  in one batch when there are any.
\<close>

definition prepare_and_batch ::
  "world \<Rightarrow> ServerDataOperator \<Rightarrow> UserProfile list \<Rightarrow> unit io" where
  "prepare_and_batch w op us =
     io_bind (invoke (PrepareUsers us) (prepareUsers w op us)) (\<lambda>prepare.
       (case prepare of
          Some promise \<Rightarrow>
            io_bind (await promise) (\<lambda>models.
              if length models \<noteq> 0
              then call (Operator_batchRecords models) (batchRecords op models)
              else io_return ())
        | None \<Rightarrow> io_return ()))"

text \<open>The logout check in the handler is called but not awaited.\<close>

definition fetchProfilesInChannel ::
  "world \<Rightarrow> string \<Rightarrow> string \<Rightarrow> string option \<Rightarrow> bool \<Rightarrow> ProfilesInChannelRequest io" where
  "fetchProfilesInChannel w serverUrl channelId' excludeUserId fetchOnly =
     (case NetworkManager_getClient w serverUrl of
        Inl err \<Rightarrow> io_return \<lparr>users = None, channelId = channelId', error = Some err\<rparr>
      | Inr client \<Rightarrow>
          try_catch
            (io_bind
               (call (Client_getProfilesInChannel channelId')
                  (getProfilesInChannel client channelId')) (\<lambda>users.
             let uniqueUsers = new_Set users in
             io_bind
               (if \<not> fetchOnly then
                  (case DatabaseManager_serverDatabases w serverUrl of
                     Some sdb \<Rightarrow>
                       prepare_and_batch w (operator sdb)
                         (filter (not_excluded excludeUserId) uniqueUsers)
                   | None \<Rightarrow> io_return ())
                else io_return ()) (\<lambda>_.
             io_return \<lparr>users = Some uniqueUsers, channelId = channelId', error = None\<rparr>)))
            (\<lambda>err.
               io_bind
                 (invoke (ForceLogoutIfNecessary serverUrl err)
                    (forceLogoutIfNecessary w serverUrl err)) (\<lambda>_.
               io_return \<lparr>users = None, channelId = channelId', error = Some err\<rparr>)))"

text \<open>
  The loop over \<open>data\<close> that fills the set \<open>users\<close>: an item contributes when
  \<open>item.users?.length\<close> is truthy.
\<close>

definition add_item_users ::
  "UserProfile list \<Rightarrow> ProfilesInChannelRequest \<Rightarrow> UserProfile list" where
  "add_item_users users' item =
     (case ProfilesInChannelRequest.users item of
        Some us \<Rightarrow> if length us \<noteq> 0 then foldl Set_add users' us else users'
      | None \<Rightarrow> users')"

definition fetchProfilesPerChannels ::
  "world \<Rightarrow> string \<Rightarrow> string list \<Rightarrow> string option \<Rightarrow> bool \<Rightarrow> ProfilesPerChannelRequest io" where
  "fetchProfilesPerChannels w serverUrl channelIds excludeUserId fetchOnly =
     try_catch
       (let requests =
              map (\<lambda>id. fetchProfilesInChannel w serverUrl id excludeUserId True) channelIds in
        io_bind (Promise_all requests) (\<lambda>data.
        io_bind
          (if \<not> fetchOnly then
             (case DatabaseManager_serverDatabases w serverUrl of
                Some sdb \<Rightarrow>
                  (let users = foldl add_item_users [] data in
                   prepare_and_batch w (operator sdb)
                     (filter (not_excluded excludeUserId) users))
              | None \<Rightarrow> io_return ())
           else io_return ()) (\<lambda>_.
        io_return \<lparr>ProfilesPerChannelRequest.data = Some data, ProfilesPerChannelRequest.error = None\<rparr>)))
       (\<lambda>err. io_return \<lparr>ProfilesPerChannelRequest.data = None, ProfilesPerChannelRequest.error = Some err\<rparr>)"

subsection \<open>loadMe\<close>

text \<open>
  Lines 136 to 150: attach the device when a token was given (an empty string is
  falsy), and fetch the current user when the caller gave none.  The block either
  falls through with the current user (\<open>Inr\<close>) or makes \<open>loadMe\<close> return
  (\<open>Inl\<close>).
\<close>

definition loadMe_session ::
  "world \<Rightarrow> string \<Rightarrow> Client \<Rightarrow> LoadMeArgs \<Rightarrow> (LoadMeResult + UserProfile) io" where
  "loadMe_session w serverUrl client args =
     try_catch
       (io_bind
          (case deviceToken args of
             Some tok \<Rightarrow>
               if tok \<noteq> [] then call (Client_attachDevice tok) (attachDevice client tok)
               else io_return ()
           | None \<Rightarrow> io_return ()) (\<lambda>_.
        io_bind
          (case LoadMeArgs.user args of
             None \<Rightarrow> call Client_getMe (getMe client)
           | Some u \<Rightarrow> io_return u) (\<lambda>currentUser'.
        io_return (Inr currentUser'))))
       (\<lambda>e.
          io_bind
            (call (ForceLogoutIfNecessary serverUrl e) (forceLogoutIfNecessary w serverUrl e))
            (\<lambda>_. io_return (Inl \<lparr>LoadMeResult.error = Some e, currentUser = None\<rparr>)))"

text \<open>Lines 188 to 191: one derived record per unread entry.\<close>

definition myTeams_of :: "TeamMembership list \<Rightarrow> TeamUnread list \<Rightarrow> MyTeam list" where
  "myTeams_of teamMemberships teamUnreads =
     map (\<lambda>unread.
            let matchingTeam =
                  find (\<lambda>team. TeamMembership.team_id team = TeamUnread.team_id unread)
                    teamMemberships
            in \<lparr>MyTeam.id' = TeamUnread.team_id unread,
                roles = (case matchingTeam of
                           Some team \<Rightarrow> TeamMembership.roles team
                         | None \<Rightarrow> []),
                is_unread = (msg_count unread > 0),
                mentions_count = mention_count unread\<rparr>)
         teamUnreads"

text \<open>
  Lines 226 to 235: the role names, collected by the two loops, then made a set.
\<close>

definition rolesToLoad_of :: "UserProfile \<Rightarrow> TeamMembership list \<Rightarrow> string list" where
  "rolesToLoad_of currentUser' teamMemberships =
     (let roles = [];
          roles = foldl (\<lambda>roles role. roles @ [role]) roles
                    (String_split CHR '' '' (UserProfile.roles currentUser'));
          roles = foldl (\<lambda>roles teamMember.
                           roles @ String_split CHR '' '' (TeamMembership.roles teamMember))
                    roles teamMemberships
      in new_Set roles)"

text \<open>Lines 237 to 244: fetch and stage the roles.\<close>

definition loadMe_roles ::
  "Client \<Rightarrow> ServerDataOperator \<Rightarrow> string list \<Rightarrow> Model list io" where
  "loadMe_roles client op rolesToLoad =
     (if length rolesToLoad > 0 then
        io_bind
          (call (Client_getRolesByNames rolesToLoad) (getRolesByNames client rolesToLoad))
          (\<lambda>rolesByName.
             (case rolesByName of
                Some rs \<Rightarrow>
                  if length rs \<noteq> 0
                  then call (Operator_handleRole rs True) (handleRole op rs True)
                  else io_return []
              | None \<Rightarrow> io_return []))
      else io_return [])"

text \<open>
  Lines 153 to 248: everything in the last \<open>try\<close> block up to the flattened list
  of prepared models.  The six requests are started, then joined; the \<open>handle...\<close>
  calls are started in source order and joined at line 246.
\<close>

definition loadMe_prepare ::
  "world \<Rightarrow> string \<Rightarrow> Client \<Rightarrow> ServerDataOperator \<Rightarrow> UserProfile \<Rightarrow> Model list io" where
  "loadMe_prepare w serverUrl client op currentUser' =
     io_bind (call (Analytics_create serverUrl) (analytics_create w serverUrl)) (\<lambda>analyticsClient.
     io_bind (call (Analytics_setUserId (UserProfile.id' currentUser'))
                (setUserId analyticsClient (UserProfile.id' currentUser'))) (\<lambda>_.
     io_bind (call (Analytics_setUserRoles (UserProfile.roles currentUser'))
                (setUserRoles analyticsClient (UserProfile.roles currentUser'))) (\<lambda>_.
     io_bind (invoke Client_getMyTeams (getMyTeams client)) (\<lambda>teamsRequest.
     io_bind (invoke Client_getMyTeamMembers (getMyTeamMembers client)) (\<lambda>teamMembersRequest.
     io_bind (invoke Client_getMyTeamUnreads (getMyTeamUnreads client)) (\<lambda>teamUnreadRequest.
     io_bind (invoke Client_getMyPreferences (getMyPreferences client)) (\<lambda>preferencesRequest.
     io_bind (invoke Client_getClientConfigOld (getClientConfigOld client)) (\<lambda>configRequest.
     io_bind (invoke Client_getClientLicenseOld (getClientLicenseOld client)) (\<lambda>licenseRequest.
     io_bind (await teamsRequest) (\<lambda>teams.
     io_bind (await teamMembersRequest) (\<lambda>teamMemberships.
     io_bind (await teamUnreadRequest) (\<lambda>teamUnreads.
     io_bind (await preferencesRequest) (\<lambda>preferences.
     io_bind (await configRequest) (\<lambda>config.
     io_bind (await licenseRequest) (\<lambda>license.
     io_bind (invoke (Operator_handleTeam teams True)
                (handleTeam op teams True)) (\<lambda>teamRecords.
     io_bind (invoke (Operator_handleTeamMemberships teamMemberships True)
                (handleTeamMemberships op teamMemberships True)) (\<lambda>teamMembershipRecords.
     let myTeams = myTeams_of teamMemberships teamUnreads in
     io_bind (invoke (Operator_handleMyTeam myTeams True)
                (handleMyTeam op myTeams True)) (\<lambda>myTeamRecords.
     let systems = [\<lparr>id' = CONFIG, val = config\<rparr>,
                    \<lparr>id' = LICENSE, val = license\<rparr>,
                    \<lparr>id' = CURRENT_USER_ID, val = UserProfile.id' currentUser'\<rparr>] in
     io_bind (invoke (Operator_handleSystem systems True)
                (handleSystem op systems True)) (\<lambda>systemRecords.
     io_bind (invoke (Operator_handleUsers [currentUser'] True)
                (handleUsers op [currentUser'] True)) (\<lambda>userRecords.
     io_bind (invoke (Operator_handlePreferences preferences True)
                (handlePreferences op preferences True)) (\<lambda>preferenceRecords.
     let rolesToLoad = rolesToLoad_of currentUser' teamMemberships in
     io_bind (loadMe_roles client op rolesToLoad) (\<lambda>rolesRecords.
     io_bind (await teamRecords) (\<lambda>m1.
     io_bind (await teamMembershipRecords) (\<lambda>m2.
     io_bind (await myTeamRecords) (\<lambda>m3.
     io_bind (await systemRecords) (\<lambda>m4.
     io_bind (await preferenceRecords) (\<lambda>m5.
     io_bind (await userRecords) (\<lambda>m7.
     io_return (concat [m1, m2, m3, m4, m5, rolesRecords, m7])))))))))))))))))))))))))))))"

text \<open>Lines 249 to 251: the single batch commit.\<close>

definition loadMe_commit :: "ServerDataOperator \<Rightarrow> Model list \<Rightarrow> unit io" where
  "loadMe_commit op flattenedModels =
     (if length flattenedModels > 0
      then call (Operator_batchRecords flattenedModels) (batchRecords op flattenedModels)
      else io_return ())"

definition loadMe :: "world \<Rightarrow> string \<Rightarrow> LoadMeArgs \<Rightarrow> LoadMeResult io" where
  "loadMe w serverUrl args =
     (case DatabaseManager_serverDatabases w serverUrl of
        None \<Rightarrow>
          io_return
            \<lparr>LoadMeResult.error = Some (serverUrl @ '' database not found''), currentUser = None\<rparr>
      | Some sdb \<Rightarrow>
          (case NetworkManager_getClient w serverUrl of
             Inl err \<Rightarrow> io_return \<lparr>LoadMeResult.error = Some err, currentUser = None\<rparr>
           | Inr client \<Rightarrow>
               io_bind (loadMe_session w serverUrl client args) (\<lambda>s.
                 (case s of
                    Inl returned \<Rightarrow> io_return returned
                  | Inr currentUser' \<Rightarrow>
                      try_catch
                        (io_bind (loadMe_prepare w serverUrl client (operator sdb) currentUser')
                           (\<lambda>flattenedModels.
                         io_bind (loadMe_commit (operator sdb) flattenedModels) (\<lambda>_.
                         io_return \<lparr>LoadMeResult.error = None, currentUser = Some currentUser'\<rparr>)))
                        (\<lambda>e. io_return \<lparr>LoadMeResult.error = Some e, currentUser = None\<rparr>)))))"

subsection \<open>updateMe\<close>

text \<open>
  The \<open>try\<close> block around \<open>patchMe\<close> either falls through with the returned
  profile (\<open>Inr\<close>) or makes \<open>updateMe\<close> return (\<open>Inl\<close>).  The upsert that
  follows is called but not awaited; \<open>fetchRolesIfNeeded\<close> is awaited.
\<close>

definition updateMe :: "world \<Rightarrow> string \<Rightarrow> UserModel \<Rightarrow> UpdateMeResult io" where
  "updateMe w serverUrl user' =
     (case DatabaseManager_serverDatabases w serverUrl of
        None \<Rightarrow> io_return \<lparr>data = None, error = Some (serverUrl @ '' database not found'')\<rparr>
      | Some sdb \<Rightarrow>
          (case NetworkManager_getClient w serverUrl of
             Inl err \<Rightarrow> io_return \<lparr>data = None, error = Some err\<rparr>
           | Inr client \<Rightarrow>
               io_bind
                 (try_catch
                    (io_bind (call (Client_patchMe (raw user')) (patchMe client (raw user')))
                       (\<lambda>data. io_return (Inr data)))
                    (\<lambda>e. io_bind (call (LogError e) (logError w e))
                       (\<lambda>_. io_return (Inl \<lparr>data = None, error = Some e\<rparr>))))
                 (\<lambda>r.
                    (case r of
                       Inl returned \<Rightarrow> io_return returned
                     | Inr data' \<Rightarrow>
                         io_bind
                           (case data' of
                              Some d \<Rightarrow>
                                io_bind
                                  (invoke (Operator_handleUsers [d] False)
                                     (handleUsers (operator sdb) [d] False)) (\<lambda>_.
                                let updatedRoles = String_split CHR '' '' (UserProfile.roles d) in
                                if length updatedRoles \<noteq> 0
                                then call (FetchRolesIfNeeded serverUrl updatedRoles)
                                       (fetchRolesIfNeeded w serverUrl updatedRoles)
                                else io_return ())
                            | None \<Rightarrow> io_return ()) (\<lambda>_.
                         io_return \<lparr>data = data', error = None\<rparr>)))))"

section \<open>Reading a trace\<close>

text \<open>
  A call that makes records durable: the batch commit, or a \<open>handle...\<close> call
  whose flag \<open>prepareRecordsOnly\<close> is false.
\<close>

fun is_store_write :: "event \<Rightarrow> bool" where
  "is_store_write (Operator_batchRecords models) = True"
| "is_store_write (Operator_handleUsers payload prepareRecordsOnly) = (\<not> prepareRecordsOnly)"
| "is_store_write (Operator_handleTeam payload prepareRecordsOnly) = (\<not> prepareRecordsOnly)"
| "is_store_write (Operator_handleTeamMemberships payload prepareRecordsOnly) =
     (\<not> prepareRecordsOnly)"
| "is_store_write (Operator_handleMyTeam payload prepareRecordsOnly) = (\<not> prepareRecordsOnly)"
| "is_store_write (Operator_handleSystem payload prepareRecordsOnly) = (\<not> prepareRecordsOnly)"
| "is_store_write (Operator_handlePreferences payload prepareRecordsOnly) =
     (\<not> prepareRecordsOnly)"
| "is_store_write (Operator_handleRole payload prepareRecordsOnly) = (\<not> prepareRecordsOnly)"
| "is_store_write ev = False"

text \<open>The arguments of the calls of one kind, in order.\<close>

fun prepared_users :: "event list \<Rightarrow> UserProfile list list" where
  "prepared_users [] = []"
| "prepared_users (PrepareUsers us # t) = us # prepared_users t"
| "prepared_users (ev # t) = prepared_users t"

fun batches :: "event list \<Rightarrow> Model list list" where
  "batches [] = []"
| "batches (Operator_batchRecords models # t) = models # batches t"
| "batches (ev # t) = batches t"

fun staged_myTeams :: "event list \<Rightarrow> MyTeam list list" where
  "staged_myTeams [] = []"
| "staged_myTeams (Operator_handleMyTeam myTeams True # t) = myTeams # staged_myTeams t"
| "staged_myTeams (ev # t) = staged_myTeams t"

fun role_fetches :: "event list \<Rightarrow> string list list" where
  "role_fetches [] = []"
| "role_fetches (Client_getRolesByNames names # t) = names # role_fetches t"
| "role_fetches (ev # t) = role_fetches t"

fun role_refreshes :: "event list \<Rightarrow> string list list" where
  "role_refreshes [] = []"
| "role_refreshes (FetchRolesIfNeeded serverUrl names # t) = names # role_refreshes t"
| "role_refreshes (ev # t) = role_refreshes t"

section \<open>Concrete collaborators\<close>

text \<open>
  A small world on which the operations can be run.  The server \<open>srv\<close> has a
  client and a database; \<open>nodb\<close> has a client only; \<open>noclient\<close> has a
  database only; \<open>badcfg\<close> has both, and its configuration request fails;
  \<open>bare\<close> has both, and its user belongs to no team.
\<close>

definition alice :: UserProfile where
  "alice = \<lparr>ref = 1, id' = ''u1'', roles = ''system_user''\<rparr>"

definition bob :: UserProfile where
  "bob = \<lparr>ref = 2, id' = ''u2'', roles = ''system_user system_admin''\<rparr>"

definition carol :: UserProfile where
  "carol = \<lparr>ref = 3, id' = ''u3'', roles = ''system_guest''\<rparr>"

definition nobody :: UserProfile where
  "nobody = \<lparr>ref = 4, id' = ''u4'', roles = []\<rparr>"

definition demo_operator :: ServerDataOperator where
  "demo_operator =
     \<lparr>handleUsers = (\<lambda>us p. Inr (map (\<lambda>u. ''User '' @ UserProfile.id' u) us)),
      handleTeam = (\<lambda>ts p. Inr (map (\<lambda>t. ''Team '' @ t) ts)),
      handleTeamMemberships =
        (\<lambda>ms p. Inr (map (\<lambda>m. ''TeamMembership '' @ TeamMembership.team_id m) ms)),
      handleMyTeam = (\<lambda>ms p. Inr (map (\<lambda>m. ''MyTeam '' @ MyTeam.id' m) ms)),
      handleSystem = (\<lambda>xs p. Inr (map (\<lambda>x. ''System '' @ val x) xs)),
      handlePreferences = (\<lambda>ps p. Inr (map (\<lambda>x. ''Preference '' @ x) ps)),
      handleRole = (\<lambda>rs p. Inr (map (\<lambda>r. ''Role '' @ r) rs)),
      batchRecords = (\<lambda>ms. Inr ())\<rparr>"

definition demo_client :: Client where
  "demo_client =
     \<lparr>getMe = Inr alice,
      getProfilesInChannel =
        (\<lambda>c. if c = ''c1'' then Inr [alice, bob, alice]
             else if c = ''c2'' then Inl ''timeout''
             else Inr [bob, carol]),
      attachDevice = (\<lambda>tok. Inr ()),
      getMyTeams = Inr [''t1'', ''t2''],
      getMyTeamMembers =
        Inr [\<lparr>TeamMembership.team_id = ''t1'', roles = ''team_user team_admin''\<rparr>,
             \<lparr>TeamMembership.team_id = ''t2'', roles = ''team_user''\<rparr>],
      getMyTeamUnreads =
        Inr [\<lparr>team_id = ''t2'', msg_count = 3, mention_count = 1\<rparr>,
             \<lparr>team_id = ''t9'', msg_count = 0, mention_count = 0\<rparr>],
      getMyPreferences = Inr [''theme''],
      getClientConfigOld = Inr ''{}'',
      getClientLicenseOld = Inr ''{}'',
      getRolesByNames = (\<lambda>names. Inr (Some names)),
      patchMe = (\<lambda>r. Inr (Some alice))\<rparr>"

definition demo_world :: world where
  "demo_world =
     \<lparr>NetworkManager_getClient =
        (\<lambda>s. if s = ''srv'' \<or> s = ''nodb'' then Inr demo_client
             else if s = ''badcfg''
               then Inr (demo_client\<lparr>getClientConfigOld := Inl ''config failed''\<rparr>)
             else if s = ''bare''
               then Inr (demo_client\<lparr>getMyTeams := Inr [], getMyTeamMembers := Inr [],
                                      getMyTeamUnreads := Inr []\<rparr>)
             else Inl (''client for '' @ s @ '' not found'')),
      DatabaseManager_serverDatabases =
        (\<lambda>s. if s = ''srv'' \<or> s = ''noclient'' \<or> s = ''badcfg'' \<or> s = ''bare''
             then Some \<lparr>database = s, operator = demo_operator\<rparr>
             else None),
      forceLogoutIfNecessary = (\<lambda>s e. Inr ()),
      prepareUsers = (\<lambda>op us. if us = [] then None else Some (handleUsers op us True)),
      fetchRolesIfNeeded = (\<lambda>s rs. Inr ()),
      logError = (\<lambda>e. Inr ()),
      analytics_create =
        (\<lambda>s. Inr \<lparr>setUserId = (\<lambda>i. Inr ()), setUserRoles = (\<lambda>r. Inr ())\<rparr>)\<rparr>"

text \<open>
  Two behaviours of the library's accessors.  With \<open>plain_properties\<close> a member is
  an ordinary property: assigning stores the value and reading returns it.  With
  \<open>guarded_accessors\<close> an assignment to a member of a record that is not being
  created or updated is refused, which is what the library does outside of its
  \<open>create\<close> and \<open>update\<close> calls; \<open>new ChannelInfo()\<close> is such a record.
\<close>

definition plain_properties ::
  "((string \<rightharpoonup> JSValue) \<times> (string \<times> string \<rightharpoonup> JSValue)) WatermelonDB" where
  "plain_properties =
     \<lparr>Model_constructor = Inr (Map.empty, Map.empty),
      field_get = (\<lambda>column this.
         Inr (case fst this column of Some v \<Rightarrow> v | None \<Rightarrow> JSUndefined)),
      field_set = (\<lambda>column v this. Inr ((fst this)(column \<mapsto> v), snd this)),
      relation_get = (\<lambda>table column this.
         Inr (case snd this (table, column) of Some v \<Rightarrow> v | None \<Rightarrow> JSUndefined)),
      relation_set = (\<lambda>table column v this.
         Inr (fst this, (snd this)((table, column) \<mapsto> v))),
      CHANNEL = ''Channel''\<rparr>"

definition guarded_accessors :: "unit WatermelonDB" where
  "guarded_accessors =
     \<lparr>Model_constructor = Inr (),
      field_get = (\<lambda>column this. Inr JSUndefined),
      field_set = (\<lambda>column v this. Inl ''record is not being created or updated''),
      relation_get = (\<lambda>table column this. Inr JSUndefined),
      relation_set = (\<lambda>table column v this. Inl ''a relation is not set directly''),
      CHANNEL = ''Channel''\<rparr>"

section \<open>Properties of the entity schema\<close>

lemmas ChannelInfo_accessors =
  get_channelId_def set_channelId_def get_guestCount_def set_guestCount_def
  get_header_def set_header_def get_memberCount_def set_memberCount_def
  get_pinPostCount_def set_pinPostCount_def get_purpose_def set_purpose_def
  get_channel_def set_channel_def

text \<open>
  When the members behave as plain properties the constructor returns an object that
  holds the defaults it assigns.
\<close>

lemma ChannelInfo_constructor_plain_properties:
  "\<exists>this.
     ChannelInfo_constructor plain_properties = Inr this \<and>
     get_channelId plain_properties this = Inr (JSString '''') \<and>
     get_header plain_properties this = Inr (JSString '''') \<and>
     get_purpose plain_properties this = Inr (JSString '''') \<and>
     get_guestCount plain_properties this = Inr (JSNumber 0) \<and>
     get_memberCount plain_properties this = Inr (JSNumber 0) \<and>
     get_pinPostCount plain_properties this = Inr (JSNumber 0) \<and>
     get_channel plain_properties this = Inr (JSObject [])"
  by (simp add: ChannelInfo_constructor_def ChannelInfo_accessors plain_properties_def)

text \<open>
  Whatever the library, when \<open>super()\<close> returns and the accessor refuses the first
  assignment, the constructor throws what the accessor throws.
\<close>

lemma ChannelInfo_constructor_first_assignment_refused:
  assumes "Model_constructor lib = Inr this"
    and "set_channelId lib (JSString '''') this = Inl e"
  shows "ChannelInfo_constructor lib = Inl e"
  using assms by (simp add: ChannelInfo_constructor_def)

text \<open>
  C10, at an input where the code departs from it.  With accessors that refuse to
  change a record outside of create and update, \<open>new ChannelInfo()\<close> throws at its
  first assignment, \<open>this.channelId = ''''\<close>: no object is constructed, so none holds
  the defaults.
\<close>

theorem ChannelInfo_constructor_throws_with_guarded_accessors:
  "Model_constructor guarded_accessors = Inr () \<and>
   set_channelId guarded_accessors (JSString '''') () =
     Inl ''record is not being created or updated'' \<and>
   ChannelInfo_constructor guarded_accessors =
     Inl ''record is not being created or updated''"
proof -
  have m: "Model_constructor guarded_accessors = Inr ()"
    by (simp add: guarded_accessors_def)
  have s: "set_channelId guarded_accessors (JSString '''') () =
             Inl ''record is not being created or updated''"
    by (simp add: set_channelId_def guarded_accessors_def)
  show ?thesis
    using m s ChannelInfo_constructor_first_assignment_refused [OF m s] by simp
qed

section \<open>Basic facts about computations\<close>

lemma fst_io_bind:
  "fst (io_bind m f) = (case fst m of Inl e \<Rightarrow> Inl e | Inr x \<Rightarrow> fst (f x))"
  by (simp add: io_bind_def split: prod.splits sum.splits)

lemma snd_io_bind:
  "snd (io_bind m f) = (case fst m of Inl e \<Rightarrow> snd m | Inr x \<Rightarrow> snd m @ snd (f x))"
  by (simp add: io_bind_def split: prod.splits sum.splits)

lemma fst_try_catch:
  "fst (try_catch m h) = (case fst m of Inl e \<Rightarrow> fst (h e) | Inr x \<Rightarrow> Inr x)"
  by (simp add: try_catch_def split: prod.splits sum.splits)

lemma snd_try_catch:
  "snd (try_catch m h) = (case fst m of Inl e \<Rightarrow> snd m @ snd (h e) | Inr x \<Rightarrow> snd m)"
  by (simp add: try_catch_def split: prod.splits sum.splits)

lemma call_eq: "call ev p = (p, [ev])"
  by (simp add: call_def io_bind_def invoke_def await_def split: sum.splits)

lemma snd_Promise_all: "snd (Promise_all ps) = concat (map snd ps)"
  by (induction ps rule: Promise_all.induct) (auto split: prod.splits)

lemma fst_Promise_all_map:
  "(\<And>x. x \<in> set xs \<Longrightarrow> fst (f x) = Inr (g x)) \<Longrightarrow>
   fst (Promise_all (map f xs)) = Inr (map g xs)"
proof (induction xs)
  case Nil
  then show ?case by simp
next
  case (Cons x xs)
  obtain t where fx: "f x = (Inr (g x), t)"
    using Cons.prems [of x] by (cases "f x") simp
  have "fst (Promise_all (map f xs)) = Inr (map g xs)"
    using Cons by simp
  then show ?case
    by (cases "Promise_all (map f xs)") (simp add: fx)
qed

text \<open>No event of a given kind: the property passes through the combinators.\<close>

lemma filter_bind_empty:
  "filter P (snd m) = [] \<Longrightarrow> (\<And>x. filter P (snd (f x)) = []) \<Longrightarrow>
   filter P (snd (io_bind m f)) = []"
  by (simp add: snd_io_bind split: sum.splits)

lemma filter_try_catch_empty:
  "filter P (snd m) = [] \<Longrightarrow> (\<And>e. filter P (snd (h e)) = []) \<Longrightarrow>
   filter P (snd (try_catch m h)) = []"
  by (simp add: snd_try_catch split: sum.splits)

lemma filter_Promise_all_empty:
  "(\<And>p. p \<in> set ps \<Longrightarrow> filter P (snd p) = []) \<Longrightarrow> filter P (snd (Promise_all ps)) = []"
  by (induction ps) (simp_all add: snd_Promise_all)

subsection \<open>Sets and split\<close>

lemma set_foldl_Set_add: "set (foldl Set_add s xs) = set s \<union> set xs"
  by (induction xs arbitrary: s) (auto simp: Set_add_def)

lemma distinct_foldl_Set_add: "distinct s \<Longrightarrow> distinct (foldl Set_add s xs)"
  by (induction xs arbitrary: s) (auto simp: Set_add_def)

lemma set_new_Set: "set (new_Set xs) = set xs"
  by (simp add: new_Set_def set_foldl_Set_add)

lemma distinct_new_Set: "distinct (new_Set xs)"
  by (simp add: new_Set_def distinct_foldl_Set_add)

lemma String_split_not_Nil: "String_split sep s \<noteq> []"
  by (induction s) (auto split: list.splits)

subsection \<open>The fetch-only channel fetch in closed form\<close>

lemma fetchProfilesInChannel_fetchOnly_eq:
  "fetchProfilesInChannel w serverUrl c x True =
     (case NetworkManager_getClient w serverUrl of
        Inl err \<Rightarrow> (Inr \<lparr>users = None, channelId = c, error = Some err\<rparr>, [])
      | Inr client \<Rightarrow>
          (case getProfilesInChannel client c of
             Inl err \<Rightarrow>
               (Inr \<lparr>users = None, channelId = c, error = Some err\<rparr>,
                [Client_getProfilesInChannel c, ForceLogoutIfNecessary serverUrl err])
           | Inr us \<Rightarrow>
               (Inr \<lparr>users = Some (new_Set us), channelId = c, error = None\<rparr>,
                [Client_getProfilesInChannel c])))"
  by (simp add: fetchProfilesInChannel_def io_bind_def try_catch_def io_return_def invoke_def
        call_eq Let_def split: sum.splits)

lemma fetchMe_fetchOnly_no_write:
  "filter is_store_write (snd (fetchMe w serverUrl True)) = []"
  unfolding fetchMe_def
  by (auto intro!: filter_bind_empty filter_try_catch_empty
        simp: io_return_def call_eq split: sum.splits)

lemma fetchProfilesInChannel_fetchOnly_no_write:
  "filter is_store_write (snd (fetchProfilesInChannel w serverUrl c x True)) = []"
  by (simp add: fetchProfilesInChannel_fetchOnly_eq split: sum.splits)

lemma fetchProfilesPerChannels_fetchOnly_no_write:
  "filter is_store_write (snd (fetchProfilesPerChannels w serverUrl cs x True)) = []"
proof -
  have "filter is_store_write
          (snd (Promise_all (map (\<lambda>id. fetchProfilesInChannel w serverUrl id x True) cs))) = []"
    by (rule filter_Promise_all_empty) (auto simp: fetchProfilesInChannel_fetchOnly_no_write)
  then show ?thesis
    unfolding fetchProfilesPerChannels_def Let_def
    by (intro filter_try_catch_empty filter_bind_empty) (simp_all add: io_return_def)
qed

section \<open>Properties of the fetch operations\<close>

text \<open>
  C3.  A call of fetchMe, fetchProfilesInChannel or fetchProfilesPerChannels with
  fetchOnly = true makes no call that writes to the store: neither a batch commit nor
  a non-staged \<open>handle...\<close> call occurs among the calls it makes.
\<close>

theorem fetchOnly_makes_no_store_write:
  "filter is_store_write (snd (fetchMe w serverUrl True)) = [] \<and>
   filter is_store_write
     (snd (fetchProfilesInChannel w serverUrl channelId' excludeUserId True)) = [] \<and>
   filter is_store_write
     (snd (fetchProfilesPerChannels w serverUrl channelIds excludeUserId True)) = []"
  by (simp add: fetchMe_fetchOnly_no_write fetchProfilesInChannel_fetchOnly_no_write
        fetchProfilesPerChannels_fetchOnly_no_write)

theorem fetchOnly_makes_no_store_write_witness:
  "filter is_store_write (snd (fetchMe demo_world ''srv'' True)) = [] \<and>
   snd (fetchMe demo_world ''srv'' True) = [Client_getMe] \<and>
   filter is_store_write
     (snd (fetchProfilesInChannel demo_world ''srv'' ''c1'' (Some ''u1'') True)) = [] \<and>
   filter is_store_write
     (snd (fetchProfilesPerChannels demo_world ''srv'' [''c1'', ''c2''] (Some ''u1'') True)) = [] \<and>
   filter is_store_write (snd (fetchMe demo_world ''srv'' False)) =
     [Operator_handleUsers [alice] False]"
  using fetchOnly_makes_no_store_write [of demo_world "''srv''" "''c1''" "Some ''u1''" "[''c1'', ''c2'']"]
  by (simp add: fetchMe_def demo_world_def demo_client_def io_bind_def try_catch_def
        io_return_def invoke_def call_eq)

text \<open>
  C9.  When the remote getMe call succeeds and no database is registered for the
  server, fetchMe with fetchOnly = false returns the user with no error, and the
  request to the server is the only call it makes: nothing is handed to the store.
\<close>

theorem fetchMe_without_database:
  assumes "NetworkManager_getClient w serverUrl = Inr client"
    and "getMe client = Inr u"
    and "DatabaseManager_serverDatabases w serverUrl = None"
  shows "fetchMe w serverUrl False =
           (Inr \<lparr>user = Some u, error = None\<rparr>, [Client_getMe])"
  using assms
  by (simp add: fetchMe_def io_bind_def try_catch_def io_return_def call_eq)

theorem fetchMe_without_database_witness:
  "NetworkManager_getClient demo_world ''nodb'' = Inr demo_client \<and>
   getMe demo_client = Inr alice \<and>
   DatabaseManager_serverDatabases demo_world ''nodb'' = None \<and>
   fetchMe demo_world ''nodb'' False =
     (Inr \<lparr>user = Some alice, error = None\<rparr>, [Client_getMe])"
proof -
  have c: "NetworkManager_getClient demo_world ''nodb'' = Inr demo_client"
    by (simp add: demo_world_def)
  have g: "getMe demo_client = Inr alice"
    by (simp add: demo_client_def)
  have d: "DatabaseManager_serverDatabases demo_world ''nodb'' = None"
    by (simp add: demo_world_def)
  show ?thesis
    using c g d fetchMe_without_database [OF c g d] by simp
qed

subsection \<open>What is handed to the store\<close>

lemma prepared_users_append:
  "prepared_users (t @ t') = prepared_users t @ prepared_users t'"
  by (induction t rule: prepared_users.induct) simp_all

lemma batches_append: "batches (t @ t') = batches t @ batches t'"
  by (induction t rule: batches.induct) simp_all

lemma prepared_users_prepare_and_batch:
  "prepared_users (snd (prepare_and_batch w op us)) = [us]"
  by (simp add: prepare_and_batch_def io_bind_def invoke_def await_def io_return_def call_eq
        split: option.splits sum.splits)

lemma batches_prepare_and_batch:
  "batches (snd (prepare_and_batch w op us)) =
     (case prepareUsers w op us of
        Some (Inr ms) \<Rightarrow> if ms = [] then [] else [ms]
      | _ \<Rightarrow> [])"
  by (simp add: prepare_and_batch_def io_bind_def invoke_def await_def io_return_def call_eq
        split: option.splits sum.splits)

lemma fst_prepare_and_batch:
  "fst (prepare_and_batch w op us) =
     (case prepareUsers w op us of
        None \<Rightarrow> Inr ()
      | Some (Inl e) \<Rightarrow> Inl e
      | Some (Inr ms) \<Rightarrow> if ms = [] then Inr () else batchRecords op ms)"
  by (simp add: prepare_and_batch_def io_bind_def invoke_def await_def io_return_def call_eq
        split: option.splits sum.splits)

lemma fetchProfilesInChannel_prepared_users:
  "prepared_users (snd (fetchProfilesInChannel w serverUrl c x fetchOnly)) =
     (case NetworkManager_getClient w serverUrl of
        Inl err \<Rightarrow> []
      | Inr client \<Rightarrow>
          (case getProfilesInChannel client c of
             Inl err \<Rightarrow> []
           | Inr us \<Rightarrow>
               if fetchOnly \<or> DatabaseManager_serverDatabases w serverUrl = None then []
               else [filter (not_excluded x) (new_Set us)]))"
proof (cases "NetworkManager_getClient w serverUrl")
  case (Inl err)
  then show ?thesis
    by (simp add: fetchProfilesInChannel_def io_return_def)
next
  case client: (Inr client)
  show ?thesis
  proof (cases "getProfilesInChannel client c")
    case (Inl err)
    then show ?thesis
      using client
      by (simp add: fetchProfilesInChannel_def io_bind_def try_catch_def io_return_def
            invoke_def call_eq)
  next
    case (Inr us)
    then show ?thesis
      using client
      by (auto simp: fetchProfilesInChannel_def snd_try_catch snd_io_bind fst_io_bind
            io_return_def invoke_def call_eq Let_def prepared_users_append
            prepared_users_prepare_and_batch
            split: sum.splits option.splits)
  qed
qed

lemma fetchProfilesInChannel_returned_users:
  assumes "fst (fetchProfilesInChannel w serverUrl c x fetchOnly) = Inr r"
    and "users r = Some us"
  shows "\<exists>client fetched.
           NetworkManager_getClient w serverUrl = Inr client \<and>
           getProfilesInChannel client c = Inr fetched \<and> us = new_Set fetched"
  using assms
  by (auto simp: fetchProfilesInChannel_def fst_try_catch fst_io_bind io_return_def invoke_def
        call_eq Let_def
        split: sum.splits option.splits if_splits)

text \<open>
  C2, as the code has it.  With excludeUserId supplied, no profile with that id is in
  a list handed to \<open>prepareUsers\<close>, so none is staged or committed.  The users of
  the returned result are not filtered: when present, they are the profiles fetched
  from the server, each object once.
\<close>

theorem fetchProfilesInChannel_excludes_from_store_only:
  "(\<forall>staged \<in> set (prepared_users
        (snd (fetchProfilesInChannel w serverUrl channelId' (Some excluded) fetchOnly))).
      \<forall>u \<in> set staged. UserProfile.id' u \<noteq> excluded) \<and>
   (\<forall>r us. fst (fetchProfilesInChannel w serverUrl channelId' (Some excluded) fetchOnly) = Inr r \<longrightarrow>
      users r = Some us \<longrightarrow>
      (\<exists>client fetched.
         NetworkManager_getClient w serverUrl = Inr client \<and>
         getProfilesInChannel client channelId' = Inr fetched \<and>
         us = new_Set fetched \<and> set us = set fetched \<and> distinct us))"
proof (intro conjI allI impI ballI)
  fix staged u
  assume "staged \<in> set (prepared_users
            (snd (fetchProfilesInChannel w serverUrl channelId' (Some excluded) fetchOnly)))"
    and "u \<in> set staged"
  then show "UserProfile.id' u \<noteq> excluded"
    by (auto simp: fetchProfilesInChannel_prepared_users not_excluded_def
          split: sum.splits if_splits)
next
  fix r us
  assume "fst (fetchProfilesInChannel w serverUrl channelId' (Some excluded) fetchOnly) = Inr r"
    and "users r = Some us"
  then obtain client fetched where
    "NetworkManager_getClient w serverUrl = Inr client"
    "getProfilesInChannel client channelId' = Inr fetched" "us = new_Set fetched"
    using fetchProfilesInChannel_returned_users by blast
  then show "\<exists>client fetched.
         NetworkManager_getClient w serverUrl = Inr client \<and>
         getProfilesInChannel client channelId' = Inr fetched \<and>
         us = new_Set fetched \<and> set us = set fetched \<and> distinct us"
    by (simp add: set_new_Set distinct_new_Set)
qed

lemma demo_fetchProfilesInChannel_c1:
  "fetchProfilesInChannel demo_world ''srv'' ''c1'' (Some ''u1'') False =
     (Inr \<lparr>users = Some [alice, bob], channelId = ''c1'', error = None\<rparr>,
      [Client_getProfilesInChannel ''c1'', PrepareUsers [bob],
       Operator_batchRecords [''User u2'']])"
  by (simp add: fetchProfilesInChannel_def prepare_and_batch_def demo_world_def demo_client_def
        demo_operator_def io_bind_def try_catch_def io_return_def invoke_def await_def call_eq
        new_Set_def Set_add_def not_excluded_def alice_def bob_def)

theorem fetchProfilesInChannel_excludes_from_store_only_witness:
  "prepared_users (snd (fetchProfilesInChannel demo_world ''srv'' ''c1'' (Some ''u1'') False)) =
     [[bob]] \<and>
   UserProfile.id' bob \<noteq> ''u1'' \<and>
   fst (fetchProfilesInChannel demo_world ''srv'' ''c1'' (Some ''u1'') False) =
     Inr \<lparr>users = Some [alice, bob], channelId = ''c1'', error = None\<rparr> \<and>
   getProfilesInChannel demo_client ''c1'' = Inr [alice, bob, alice] \<and>
   [alice, bob] = new_Set [alice, bob, alice]"
proof -
  have p: "prepared_users
             (snd (fetchProfilesInChannel demo_world ''srv'' ''c1'' (Some ''u1'') False)) = [[bob]]"
    by (simp add: demo_fetchProfilesInChannel_c1)
  have "UserProfile.id' bob \<noteq> ''u1''"
    using fetchProfilesInChannel_excludes_from_store_only
            [of demo_world "''srv''" "''c1''" "''u1''" False] p
    by simp
  moreover have "getProfilesInChannel demo_client ''c1'' = Inr [alice, bob, alice]"
    by (simp add: demo_client_def)
  moreover have "[alice, bob] = new_Set [alice, bob, alice]"
    by (simp add: new_Set_def Set_add_def alice_def bob_def)
  ultimately show ?thesis
    using p by (simp add: demo_fetchProfilesInChannel_c1)
qed

text \<open>
  C2, as stated, fails: the excluded user is in the returned list.
\<close>

theorem fetchProfilesInChannel_returns_excluded_user:
  "fst (fetchProfilesInChannel demo_world ''srv'' ''c1'' (Some ''u1'') False) =
     Inr \<lparr>users = Some [alice, bob], channelId = ''c1'', error = None\<rparr> \<and>
   UserProfile.id' alice = ''u1''"
  by (simp add: demo_fetchProfilesInChannel_c1 alice_def)

subsection \<open>The fan-out over channels\<close>

lemma prepared_users_concat_empty:
  "(\<And>t. t \<in> set ts \<Longrightarrow> prepared_users t = []) \<Longrightarrow> prepared_users (concat ts) = []"
  by (induction ts) (simp_all add: prepared_users_append)

lemma batches_concat_empty:
  "(\<And>t. t \<in> set ts \<Longrightarrow> batches t = []) \<Longrightarrow> batches (concat ts) = []"
  by (induction ts) (simp_all add: batches_append)

lemma set_foldl_add_item_users:
  "set (foldl add_item_users acc items) =
     set acc \<union> {u. \<exists>e \<in> set items. \<exists>us. users e = Some us \<and> u \<in> set us}"
proof (induction items arbitrary: acc)
  case Nil
  then show ?case by simp
next
  case (Cons item items)
  have "set (add_item_users acc item) =
          set acc \<union> {u. \<exists>us. users item = Some us \<and> u \<in> set us}"
    by (auto simp: add_item_users_def set_foldl_Set_add split: option.splits)
  then show ?case
    using Cons.IH [of "add_item_users acc item"] by auto
qed

lemma distinct_foldl_add_item_users:
  "distinct acc \<Longrightarrow> distinct (foldl add_item_users acc items)"
  by (induction items arbitrary: acc)
    (simp_all add: add_item_users_def distinct_foldl_Set_add split: option.splits)

text \<open>The fetch-only channel fetch always returns; it never throws.\<close>

lemma fetchProfilesInChannel_fetchOnly_returns:
  "\<exists>r. fst (fetchProfilesInChannel w serverUrl c x True) = Inr r \<and> channelId r = c"
  by (simp add: fetchProfilesInChannel_fetchOnly_eq split: sum.splits)

lemma fetchProfilesPerChannels_store_eq:
  assumes "DatabaseManager_serverDatabases w serverUrl = Some sdb"
    and "\<And>c. c \<in> set cs \<Longrightarrow> fst (fetchProfilesInChannel w serverUrl c x True) = Inr (entry c)"
  shows "fetchProfilesPerChannels w serverUrl cs x False =
     (let fanout = Promise_all (map (\<lambda>id. fetchProfilesInChannel w serverUrl id x True) cs);
          store = prepare_and_batch w (operator sdb)
                    (filter (not_excluded x) (foldl add_item_users [] (map entry cs)))
      in ((case fst store of
             Inl e \<Rightarrow> Inr \<lparr>ProfilesPerChannelRequest.data = None,
                          ProfilesPerChannelRequest.error = Some e\<rparr>
           | Inr u \<Rightarrow> Inr \<lparr>ProfilesPerChannelRequest.data = Some (map entry cs),
                          ProfilesPerChannelRequest.error = None\<rparr>),
          snd fanout @ snd store))"
proof -
  have "fst (Promise_all (map (\<lambda>id. fetchProfilesInChannel w serverUrl id x True) cs)) =
          Inr (map entry cs)"
    using assms(2) by (rule fst_Promise_all_map)
  then show ?thesis
    using assms(1)
    by (simp add: fetchProfilesPerChannels_def Let_def prod_eq_iff fst_try_catch snd_try_catch
          fst_io_bind snd_io_bind io_return_def split: sum.splits)
qed

text \<open>
  C4.  With a database registered and fetchOnly = false, fetchProfilesPerChannels
  hands exactly one list of users to \<open>prepareUsers\<close>: each object once, and as a
  set the union of the users returned by the per-channel fetches without the profiles
  whose id is excludeUserId.  The only batch commit is the one of the models prepared
  from that list.  The function returns the per-channel entries as its data, with no
  error, unless the store step itself fails (the promise of \<open>prepareUsers\<close> or
  the batch commit rejects), and then it returns that error.  A channel whose own
  request succeeds has its entry among the entries and its users in that list,
  whatever happens to the other channels.
\<close>

theorem fetchProfilesPerChannels_commits_union:
  assumes db: "DatabaseManager_serverDatabases w serverUrl = Some sdb"
  shows "\<exists>entries staged r.
     list_all2 (\<lambda>c e. fst (fetchProfilesInChannel w serverUrl c excludeUserId True) = Inr e)
       channelIds entries \<and>
     fst (fetchProfilesPerChannels w serverUrl channelIds excludeUserId False) = Inr r \<and>
     (ProfilesPerChannelRequest.error r = None \<longrightarrow>
        ProfilesPerChannelRequest.data r = Some entries) \<and>
     r = (let returned = \<lparr>ProfilesPerChannelRequest.data = Some entries,
                            ProfilesPerChannelRequest.error = None\<rparr>;
              failed = (\<lambda>e. \<lparr>ProfilesPerChannelRequest.data = None,
                              ProfilesPerChannelRequest.error = Some e\<rparr>)
          in case prepareUsers w (operator sdb) staged of
               None \<Rightarrow> returned
             | Some (Inl e) \<Rightarrow> failed e
             | Some (Inr models) \<Rightarrow>
                 if models = [] then returned
                 else (case batchRecords (operator sdb) models of
                         Inl e \<Rightarrow> failed e
                       | Inr u \<Rightarrow> returned)) \<and>
     prepared_users (snd (fetchProfilesPerChannels w serverUrl channelIds excludeUserId False)) =
       [staged] \<and>
     distinct staged \<and>
     set staged =
       {u. (\<exists>e \<in> set entries. \<exists>us. users e = Some us \<and> u \<in> set us) \<and>
           Some (UserProfile.id' u) \<noteq> excludeUserId} \<and>
     batches (snd (fetchProfilesPerChannels w serverUrl channelIds excludeUserId False)) =
       (case prepareUsers w (operator sdb) staged of
          Some (Inr models) \<Rightarrow> if models = [] then [] else [models]
        | _ \<Rightarrow> []) \<and>
     (\<forall>c \<in> set channelIds. \<forall>client us.
        NetworkManager_getClient w serverUrl = Inr client \<longrightarrow>
        getProfilesInChannel client c = Inr us \<longrightarrow>
        (\<exists>e \<in> set entries. channelId e = c \<and> users e = Some (new_Set us)) \<and>
        {u \<in> set us. Some (UserProfile.id' u) \<noteq> excludeUserId} \<subseteq> set staged)"
proof -
  define entry where
    "entry = (\<lambda>c. projr (fst (fetchProfilesInChannel w serverUrl c excludeUserId True)))"
  define staged where
    "staged = filter (not_excluded excludeUserId) (foldl add_item_users [] (map entry channelIds))"
  define fanout where
    "fanout = Promise_all
       (map (\<lambda>id. fetchProfilesInChannel w serverUrl id excludeUserId True) channelIds)"
  define store where "store = prepare_and_batch w (operator sdb) staged"
  define r where
    "r = (case fst store of
            Inl e \<Rightarrow> \<lparr>ProfilesPerChannelRequest.data = None,
                      ProfilesPerChannelRequest.error = Some e\<rparr>
          | Inr u \<Rightarrow> \<lparr>ProfilesPerChannelRequest.data = Some (map entry channelIds),
                      ProfilesPerChannelRequest.error = None\<rparr>)"
  have entry: "fst (fetchProfilesInChannel w serverUrl c excludeUserId True) = Inr (entry c)" for c
    using fetchProfilesInChannel_fetchOnly_returns [of w serverUrl c excludeUserId]
    by (auto simp: entry_def)
  have eq: "fetchProfilesPerChannels w serverUrl channelIds excludeUserId False =
              (Inr r, snd fanout @ snd store)"
    using fetchProfilesPerChannels_store_eq [OF db, of channelIds excludeUserId entry] entry
    by (simp add: Let_def r_def store_def staged_def fanout_def split: sum.splits)
  have fan_p: "prepared_users (snd fanout) = []"
    unfolding fanout_def snd_Promise_all
    by (rule prepared_users_concat_empty)
      (auto simp: fetchProfilesInChannel_fetchOnly_eq split: sum.splits)
  have fan_b: "batches (snd fanout) = []"
    unfolding fanout_def snd_Promise_all
    by (rule batches_concat_empty)
      (auto simp: fetchProfilesInChannel_fetchOnly_eq split: sum.splits)
  have 1: "list_all2 (\<lambda>c e. fst (fetchProfilesInChannel w serverUrl c excludeUserId True) = Inr e)
             channelIds (map entry channelIds)"
    by (simp add: list_all2_map2 entry list_all2_same)
  have 2: "ProfilesPerChannelRequest.error r = None \<longrightarrow>
             ProfilesPerChannelRequest.data r = Some (map entry channelIds)"
    by (simp add: r_def split: sum.splits)
  have 8: "r = (let returned = \<lparr>ProfilesPerChannelRequest.data = Some (map entry channelIds),
                            ProfilesPerChannelRequest.error = None\<rparr>;
              failed = (\<lambda>e. \<lparr>ProfilesPerChannelRequest.data = None,
                              ProfilesPerChannelRequest.error = Some e\<rparr>)
          in case prepareUsers w (operator sdb) staged of
               None \<Rightarrow> returned
             | Some (Inl e) \<Rightarrow> failed e
             | Some (Inr models) \<Rightarrow>
                 if models = [] then returned
                 else (case batchRecords (operator sdb) models of
                         Inl e \<Rightarrow> failed e
                       | Inr u \<Rightarrow> returned))"
    by (simp add: r_def store_def fst_prepare_and_batch Let_def split: option.splits sum.splits)
  have 3: "prepared_users
             (snd (fetchProfilesPerChannels w serverUrl channelIds excludeUserId False)) = [staged]"
    by (simp add: eq prepared_users_append fan_p store_def prepared_users_prepare_and_batch)
  have 4: "distinct staged"
    by (simp add: staged_def distinct_foldl_add_item_users)
  have 5: "set staged =
       {u. (\<exists>e \<in> set (map entry channelIds). \<exists>us. users e = Some us \<and> u \<in> set us) \<and>
           Some (UserProfile.id' u) \<noteq> excludeUserId}"
    by (auto simp: staged_def set_foldl_add_item_users not_excluded_def)
  have 6: "batches (snd (fetchProfilesPerChannels w serverUrl channelIds excludeUserId False)) =
       (case prepareUsers w (operator sdb) staged of
          Some (Inr models) \<Rightarrow> if models = [] then [] else [models]
        | _ \<Rightarrow> [])"
    by (simp add: eq batches_append fan_b store_def batches_prepare_and_batch)
  have 7: "(\<exists>e \<in> set (map entry channelIds). channelId e = c \<and> users e = Some (new_Set us)) \<and>
           {u \<in> set us. Some (UserProfile.id' u) \<noteq> excludeUserId} \<subseteq> set staged"
    if c: "c \<in> set channelIds"
      and cl: "NetworkManager_getClient w serverUrl = Inr client"
      and us: "getProfilesInChannel client c = Inr us"
    for c client us
  proof -
    have e: "entry c = \<lparr>users = Some (new_Set us), channelId = c, error = None\<rparr>"
      using entry [of c] cl us by (simp add: fetchProfilesInChannel_fetchOnly_eq)
    then have "\<exists>e \<in> set (map entry channelIds). channelId e = c \<and> users e = Some (new_Set us)"
      using c by (auto intro!: bexI [of _ c])
    moreover have "{u \<in> set us. Some (UserProfile.id' u) \<noteq> excludeUserId} \<subseteq> set staged"
      unfolding 5 using c e by (auto simp: set_new_Set intro!: bexI [of _ c])
    ultimately show ?thesis by simp
  qed
  show ?thesis
    apply (rule exI [of _ "map entry channelIds"])
    apply (rule exI [of _ staged])
    apply (rule exI [of _ r])
    using 1 2 8 3 4 5 6 7 eq
    apply (intro conjI)
            apply simp_all
    done
qed

lemma demo_fetchProfilesPerChannels:
  "fetchProfilesPerChannels demo_world ''srv'' [''c1'', ''c2'', ''c3''] (Some ''u1'') False =
     (Inr \<lparr>ProfilesPerChannelRequest.data =
             Some [\<lparr>users = Some [alice, bob], channelId = ''c1'', error = None\<rparr>,
                   \<lparr>users = None, channelId = ''c2'', error = Some ''timeout''\<rparr>,
                   \<lparr>users = Some [bob, carol], channelId = ''c3'', error = None\<rparr>],
           ProfilesPerChannelRequest.error = None\<rparr>,
      [Client_getProfilesInChannel ''c1'',
       Client_getProfilesInChannel ''c2'', ForceLogoutIfNecessary ''srv'' ''timeout'',
       Client_getProfilesInChannel ''c3'',
       PrepareUsers [bob, carol],
       Operator_batchRecords [''User u2'', ''User u3'']])"
  by (simp add: fetchProfilesPerChannels_def fetchProfilesInChannel_fetchOnly_eq
        prepare_and_batch_def add_item_users_def demo_world_def demo_client_def
        demo_operator_def io_bind_def try_catch_def io_return_def invoke_def await_def call_eq
        new_Set_def Set_add_def not_excluded_def alice_def bob_def carol_def)

theorem fetchProfilesPerChannels_commits_union_witness:
  "DatabaseManager_serverDatabases demo_world ''srv'' =
     Some \<lparr>database = ''srv'', operator = demo_operator\<rparr> \<and>
   fst (fetchProfilesPerChannels demo_world ''srv'' [''c1'', ''c2'', ''c3''] (Some ''u1'') False) =
     Inr \<lparr>ProfilesPerChannelRequest.data =
            Some [\<lparr>users = Some [alice, bob], channelId = ''c1'', error = None\<rparr>,
                  \<lparr>users = None, channelId = ''c2'', error = Some ''timeout''\<rparr>,
                  \<lparr>users = Some [bob, carol], channelId = ''c3'', error = None\<rparr>],
          ProfilesPerChannelRequest.error = None\<rparr> \<and>
   prepareUsers demo_world demo_operator [bob, carol] = Some (Inr [''User u2'', ''User u3'']) \<and>
   batchRecords demo_operator [''User u2'', ''User u3''] = Inr () \<and>
   prepared_users
     (snd (fetchProfilesPerChannels demo_world ''srv'' [''c1'', ''c2'', ''c3''] (Some ''u1'') False)) =
     [[bob, carol]] \<and>
   batches
     (snd (fetchProfilesPerChannels demo_world ''srv'' [''c1'', ''c2'', ''c3''] (Some ''u1'') False)) =
     [[''User u2'', ''User u3'']] \<and>
   getProfilesInChannel demo_client ''c2'' = Inl ''timeout'' \<and>
   getProfilesInChannel demo_client ''c3'' = Inr [bob, carol] \<and>
   {u \<in> set [bob, carol]. Some (UserProfile.id' u) \<noteq> Some ''u1''} \<subseteq> set [bob, carol]"
proof -
  have db: "DatabaseManager_serverDatabases demo_world ''srv'' =
              Some \<lparr>database = ''srv'', operator = demo_operator\<rparr>"
    by (simp add: demo_world_def)
  have cl: "NetworkManager_getClient demo_world ''srv'' = Inr demo_client"
    by (simp add: demo_world_def)
  have c3: "getProfilesInChannel demo_client ''c3'' = Inr [bob, carol]"
    by (simp add: demo_client_def)
  have c2: "getProfilesInChannel demo_client ''c2'' = Inl ''timeout''"
    by (simp add: demo_client_def)
  obtain staged where
    p: "prepared_users
          (snd (fetchProfilesPerChannels demo_world ''srv'' [''c1'', ''c2'', ''c3'']
                  (Some ''u1'') False)) = [staged]"
    and s: "\<forall>c \<in> set [''c1'', ''c2'', ''c3'']. \<forall>client us.
        NetworkManager_getClient demo_world ''srv'' = Inr client \<longrightarrow>
        getProfilesInChannel client c = Inr us \<longrightarrow>
        {u \<in> set us. Some (UserProfile.id' u) \<noteq> Some ''u1''} \<subseteq> set staged"
    using fetchProfilesPerChannels_commits_union
            [OF db, where channelIds = "[''c1'', ''c2'', ''c3'']" and excludeUserId = "Some ''u1''"]
    by blast
  have st: "staged = [bob, carol]"
    using p by (simp add: demo_fetchProfilesPerChannels)
  have "{u \<in> set [bob, carol]. Some (UserProfile.id' u) \<noteq> Some ''u1''} \<subseteq> set [bob, carol]"
    using s cl c3 unfolding st by fastforce
  moreover have "prepareUsers demo_world demo_operator [bob, carol] =
                   Some (Inr [''User u2'', ''User u3''])"
    by (simp add: demo_world_def demo_operator_def bob_def carol_def)
  moreover have "batchRecords demo_operator [''User u2'', ''User u3''] = Inr ()"
    by (simp add: demo_operator_def)
  ultimately show ?thesis
    using db c2 c3 by (simp add: demo_fetchProfilesPerChannels)
qed

section \<open>Properties of loadMe\<close>

subsection \<open>The derived My-Team list\<close>

lemma find_None_iff_no_match: "find P xs = None \<longleftrightarrow> (\<forall>x \<in> set xs. \<not> P x)"
  by (induction xs) auto

lemma find_Some_first:
  "find P xs = Some x \<Longrightarrow>
   \<exists>i < length xs. xs ! i = x \<and> P x \<and> (\<forall>j < i. \<not> P (xs ! j))"
  by (auto simp: find_Some_iff)

lemma myTeams_of_length: "length (myTeams_of teamMemberships teamUnreads) = length teamUnreads"
  by (simp add: myTeams_of_def)

lemma myTeams_of_nth:
  assumes "i < length teamUnreads"
  shows "MyTeam.id' (myTeams_of teamMemberships teamUnreads ! i) =
           TeamUnread.team_id (teamUnreads ! i)"
    and "MyTeam.roles (myTeams_of teamMemberships teamUnreads ! i) =
           (case find (\<lambda>team. TeamMembership.team_id team = TeamUnread.team_id (teamUnreads ! i))
                   teamMemberships of
              Some team \<Rightarrow> TeamMembership.roles team
            | None \<Rightarrow> [])"
  using assms by (simp_all add: myTeams_of_def Let_def)

lemma myTeams_of_unmatched:
  assumes "i < length teamUnreads"
    and "\<forall>m \<in> set teamMemberships.
           TeamMembership.team_id m \<noteq> TeamUnread.team_id (teamUnreads ! i)"
  shows "MyTeam.roles (myTeams_of teamMemberships teamUnreads ! i) = []"
proof -
  have "find (\<lambda>team. TeamMembership.team_id team = TeamUnread.team_id (teamUnreads ! i))
          teamMemberships = None"
    using assms(2) by (simp add: find_None_iff_no_match)
  then show ?thesis
    using assms(1) by (simp add: myTeams_of_nth)
qed

lemma myTeams_of_matched:
  assumes "i < length teamUnreads"
    and "m \<in> set teamMemberships"
    and "TeamMembership.team_id m = TeamUnread.team_id (teamUnreads ! i)"
  shows "\<exists>k < length teamMemberships.
           TeamMembership.team_id (teamMemberships ! k) = TeamUnread.team_id (teamUnreads ! i) \<and>
           (\<forall>j < k. TeamMembership.team_id (teamMemberships ! j) \<noteq>
                      TeamUnread.team_id (teamUnreads ! i)) \<and>
           MyTeam.roles (myTeams_of teamMemberships teamUnreads ! i) =
             TeamMembership.roles (teamMemberships ! k)"
proof -
  let ?P = "\<lambda>team. TeamMembership.team_id team = TeamUnread.team_id (teamUnreads ! i)"
  have "find ?P teamMemberships \<noteq> None"
    using assms(2,3) by (auto simp: find_None_iff_no_match)
  then obtain x where x: "find ?P teamMemberships = Some x"
    by auto
  then obtain k where "k < length teamMemberships" "teamMemberships ! k = x" "?P x"
    "\<forall>j < k. \<not> ?P (teamMemberships ! j)"
    using find_Some_first [of ?P teamMemberships x] by blast
  then show ?thesis
    using assms(1) x by (auto simp: myTeams_of_nth)
qed

lemma myTeams_of_matched_unique:
  assumes "i < length teamUnreads"
    and "m \<in> set teamMemberships"
    and "TeamMembership.team_id m = TeamUnread.team_id (teamUnreads ! i)"
    and "distinct (map TeamMembership.team_id teamMemberships)"
  shows "MyTeam.roles (myTeams_of teamMemberships teamUnreads ! i) = TeamMembership.roles m"
proof -
  obtain k where k: "k < length teamMemberships"
    "TeamMembership.team_id (teamMemberships ! k) = TeamUnread.team_id (teamUnreads ! i)"
    "MyTeam.roles (myTeams_of teamMemberships teamUnreads ! i) =
       TeamMembership.roles (teamMemberships ! k)"
    using myTeams_of_matched [OF assms(1,2,3)] by blast
  obtain n where n: "n < length teamMemberships" "teamMemberships ! n = m"
    using assms(2) by (auto simp: in_set_conv_nth)
  have "map TeamMembership.team_id teamMemberships ! k =
          map TeamMembership.team_id teamMemberships ! n"
    using k n assms(3) by simp
  then have "k = n"
    using nth_eq_iff_index_eq [OF assms(4), of k n] k(1) n(1) by simp
  then show ?thesis
    using k n by simp
qed

lemma loadMe_prepare_success:
  assumes "fst (loadMe_prepare w serverUrl client op u) = Inr models"
  shows "\<exists>ac teams memberships unreads prefs config license.
           analytics_create w serverUrl = Inr ac \<and>
           getMyTeams client = Inr teams \<and>
           getMyTeamMembers client = Inr memberships \<and>
           getMyTeamUnreads client = Inr unreads \<and>
           getMyPreferences client = Inr prefs \<and>
           getClientConfigOld client = Inr config \<and>
           getClientLicenseOld client = Inr license \<and>
           snd (loadMe_prepare w serverUrl client op u) =
             [Analytics_create serverUrl,
              Analytics_setUserId (UserProfile.id' u),
              Analytics_setUserRoles (UserProfile.roles u),
              Client_getMyTeams, Client_getMyTeamMembers, Client_getMyTeamUnreads,
              Client_getMyPreferences, Client_getClientConfigOld, Client_getClientLicenseOld,
              Operator_handleTeam teams True,
              Operator_handleTeamMemberships memberships True,
              Operator_handleMyTeam (myTeams_of memberships unreads) True,
              Operator_handleSystem
                [\<lparr>id' = CONFIG, val = config\<rparr>, \<lparr>id' = LICENSE, val = license\<rparr>,
                 \<lparr>id' = CURRENT_USER_ID, val = UserProfile.id' u\<rparr>] True,
              Operator_handleUsers [u] True,
              Operator_handlePreferences prefs True] @
             snd (loadMe_roles client op (rolesToLoad_of u memberships))"
  using assms unfolding loadMe_prepare_def
  by (auto simp: fst_io_bind snd_io_bind invoke_def await_def call_eq io_return_def Let_def
        split: sum.splits)

subsection \<open>The phases of loadMe\<close>

lemma staged_myTeams_append:
  "staged_myTeams (t @ t') = staged_myTeams t @ staged_myTeams t'"
  by (induction t rule: staged_myTeams.induct) simp_all

lemma role_fetches_append: "role_fetches (t @ t') = role_fetches t @ role_fetches t'"
  by (induction t rule: role_fetches.induct) simp_all

lemma loadMe_session_events:
  "filter is_store_write (snd (loadMe_session w serverUrl client args)) = []"
  "staged_myTeams (snd (loadMe_session w serverUrl client args)) = []"
  "role_fetches (snd (loadMe_session w serverUrl client args)) = []"
  "batches (snd (loadMe_session w serverUrl client args)) = []"
  by (auto simp: loadMe_session_def snd_try_catch snd_io_bind fst_io_bind call_eq io_return_def
        split: sum.splits option.splits)

lemma loadMe_session_returned:
  "fst (loadMe_session w serverUrl client args) = Inr (Inl returned) \<Longrightarrow>
   LoadMeResult.error returned \<noteq> None \<and> currentUser returned = None"
  by (auto simp: loadMe_session_def fst_try_catch fst_io_bind call_eq io_return_def
        split: sum.splits option.splits if_splits)

lemma loadMe_roles_events:
  "filter is_store_write (snd (loadMe_roles client op names)) = []"
  "staged_myTeams (snd (loadMe_roles client op names)) = []"
  "batches (snd (loadMe_roles client op names)) = []"
  "role_fetches (snd (loadMe_roles client op names)) = (if names = [] then [] else [names])"
  by (auto simp: loadMe_roles_def snd_io_bind fst_io_bind call_eq io_return_def
        split: sum.splits option.splits)

lemma loadMe_commit_events:
  "staged_myTeams (snd (loadMe_commit op models)) = []"
  "role_fetches (snd (loadMe_commit op models)) = []"
  by (simp_all add: loadMe_commit_def call_eq io_return_def)

text \<open>Nothing before the commit writes to the store.\<close>

lemma loadMe_prepare_no_store_write:
  "filter is_store_write (snd (loadMe_prepare w serverUrl client op u)) = []"
  unfolding loadMe_prepare_def Let_def
  by (intro filter_bind_empty)
    (simp_all add: invoke_def await_def call_eq io_return_def loadMe_roles_events)

lemma batches_no_store_write: "filter is_store_write t = [] \<Longrightarrow> batches t = []"
  by (induction t rule: batches.induct) (simp_all split: if_splits)

text \<open>
  A run of \<open>loadMe\<close> that got past the session block: its result and its calls in
  terms of the blocks that follow.
\<close>

lemma loadMe_after_session:
  assumes "DatabaseManager_serverDatabases w serverUrl = Some sdb"
    and "NetworkManager_getClient w serverUrl = Inr client"
    and "fst (loadMe_session w serverUrl client args) = Inr (Inr u)"
  shows "loadMe w serverUrl args =
     (let session = loadMe_session w serverUrl client args;
          prepare = loadMe_prepare w serverUrl client (operator sdb) u
      in (case fst prepare of
            Inl e \<Rightarrow>
              (Inr \<lparr>LoadMeResult.error = Some e, currentUser = None\<rparr>,
               snd session @ snd prepare)
          | Inr models \<Rightarrow>
              (let commit = loadMe_commit (operator sdb) models
               in ((case fst commit of
                      Inl e \<Rightarrow> Inr \<lparr>LoadMeResult.error = Some e, currentUser = None\<rparr>
                    | Inr x \<Rightarrow> Inr \<lparr>LoadMeResult.error = None, currentUser = Some u\<rparr>),
                   snd session @ snd prepare @ snd commit))))"
  using assms
  by (simp add: loadMe_def Let_def prod_eq_iff fst_io_bind snd_io_bind fst_try_catch
        snd_try_catch io_return_def split: sum.splits)

lemma loadMe_success:
  assumes "fst (loadMe w serverUrl args) = Inr r"
    and "LoadMeResult.error r = None"
  shows "\<exists>sdb client u models.
           DatabaseManager_serverDatabases w serverUrl = Some sdb \<and>
           NetworkManager_getClient w serverUrl = Inr client \<and>
           fst (loadMe_session w serverUrl client args) = Inr (Inr u) \<and>
           fst (loadMe_prepare w serverUrl client (operator sdb) u) = Inr models \<and>
           r = \<lparr>LoadMeResult.error = None, currentUser = Some u\<rparr> \<and>
           snd (loadMe w serverUrl args) =
             snd (loadMe_session w serverUrl client args) @
             snd (loadMe_prepare w serverUrl client (operator sdb) u) @
             snd (loadMe_commit (operator sdb) models)"
proof (cases "DatabaseManager_serverDatabases w serverUrl")
  case None
  then show ?thesis
    using assms by (auto simp: loadMe_def io_return_def)
next
  case db: (Some sdb)
  show ?thesis
  proof (cases "NetworkManager_getClient w serverUrl")
    case (Inl err)
    then show ?thesis
      using assms db by (auto simp: loadMe_def io_return_def)
  next
    case client: (Inr client)
    show ?thesis
    proof (cases "fst (loadMe_session w serverUrl client args)")
      case (Inl e)
      then show ?thesis
        using assms db client by (simp add: loadMe_def fst_io_bind)
    next
      case session: (Inr s)
      show ?thesis
      proof (cases s)
        case (Inl returned)
        then have "LoadMeResult.error returned \<noteq> None"
          using session loadMe_session_returned by blast
        then show ?thesis
          using assms db client session Inl
          by (auto simp: loadMe_def fst_io_bind io_return_def)
      next
        case (Inr u)
        show ?thesis
          using assms loadMe_after_session [OF db client session [unfolded Inr]] db client
            session [unfolded Inr]
          by (auto simp: Let_def split: sum.splits)
      qed
    qed
  qed
qed

subsection \<open>loadMe on the concrete world\<close>

lemmas demo_defs =
  demo_world_def demo_client_def demo_operator_def alice_def bob_def carol_def nobody_def

lemmas loadMe_defs =
  loadMe_def loadMe_session_def loadMe_prepare_def loadMe_roles_def loadMe_commit_def
  rolesToLoad_of_def myTeams_of_def new_Set_def Set_add_def
  io_bind_def try_catch_def io_return_def invoke_def await_def call_eq Let_def

lemma demo_loadMe_srv:
  "loadMe demo_world ''srv'' \<lparr>deviceToken = Some ''tok'', user = None\<rparr> =
     (Inr \<lparr>LoadMeResult.error = None, currentUser = Some alice\<rparr>,
      [Client_attachDevice ''tok'', Client_getMe, Analytics_create ''srv'',
       Analytics_setUserId ''u1'', Analytics_setUserRoles ''system_user'',
       Client_getMyTeams, Client_getMyTeamMembers, Client_getMyTeamUnreads,
       Client_getMyPreferences, Client_getClientConfigOld, Client_getClientLicenseOld,
       Operator_handleTeam [''t1'', ''t2''] True,
       Operator_handleTeamMemberships
         [\<lparr>TeamMembership.team_id = ''t1'', roles = ''team_user team_admin''\<rparr>,
          \<lparr>TeamMembership.team_id = ''t2'', roles = ''team_user''\<rparr>] True,
       Operator_handleMyTeam
         [\<lparr>MyTeam.id' = ''t2'', roles = ''team_user'', is_unread = True, mentions_count = 1\<rparr>,
          \<lparr>MyTeam.id' = ''t9'', roles = [], is_unread = False, mentions_count = 0\<rparr>] True,
       Operator_handleSystem
         [\<lparr>id' = CONFIG, val = ''{}''\<rparr>, \<lparr>id' = LICENSE, val = ''{}''\<rparr>,
          \<lparr>id' = CURRENT_USER_ID, val = ''u1''\<rparr>] True,
       Operator_handleUsers [alice] True,
       Operator_handlePreferences [''theme''] True,
       Client_getRolesByNames [''system_user'', ''team_user'', ''team_admin''],
       Operator_handleRole [''system_user'', ''team_user'', ''team_admin''] True,
       Operator_batchRecords
         [''Team t1'', ''Team t2'', ''TeamMembership t1'', ''TeamMembership t2'',
          ''MyTeam t2'', ''MyTeam t9'', ''System {}'', ''System {}'', ''System u1'',
          ''Preference theme'', ''Role system_user'', ''Role team_user'', ''Role team_admin'',
          ''User u1'']])"
  by (simp add: loadMe_defs demo_defs)

lemma demo_loadMe_badcfg:
  "loadMe demo_world ''badcfg'' \<lparr>deviceToken = Some ''tok'', user = None\<rparr> =
     (Inr \<lparr>LoadMeResult.error = Some ''config failed'', currentUser = None\<rparr>,
      [Client_attachDevice ''tok'', Client_getMe, Analytics_create ''badcfg'',
       Analytics_setUserId ''u1'', Analytics_setUserRoles ''system_user'',
       Client_getMyTeams, Client_getMyTeamMembers, Client_getMyTeamUnreads,
       Client_getMyPreferences, Client_getClientConfigOld, Client_getClientLicenseOld])"
  by (simp add: loadMe_defs demo_defs)

lemma demo_loadMe_bare:
  "loadMe demo_world ''bare'' \<lparr>deviceToken = None, user = Some nobody\<rparr> =
     (Inr \<lparr>LoadMeResult.error = None, currentUser = Some nobody\<rparr>,
      [Analytics_create ''bare'', Analytics_setUserId ''u4'', Analytics_setUserRoles [],
       Client_getMyTeams, Client_getMyTeamMembers, Client_getMyTeamUnreads,
       Client_getMyPreferences, Client_getClientConfigOld, Client_getClientLicenseOld,
       Operator_handleTeam [] True, Operator_handleTeamMemberships [] True,
       Operator_handleMyTeam [] True,
       Operator_handleSystem
         [\<lparr>id' = CONFIG, val = ''{}''\<rparr>, \<lparr>id' = LICENSE, val = ''{}''\<rparr>,
          \<lparr>id' = CURRENT_USER_ID, val = ''u4''\<rparr>] True,
       Operator_handleUsers [nobody] True,
       Operator_handlePreferences [''theme''] True,
       Client_getRolesByNames [[]],
       Operator_handleRole [[]] True,
       Operator_batchRecords
         [''System {}'', ''System {}'', ''System u4'', ''Preference theme'', ''Role '',
          ''User u4'']])"
  by (simp add: loadMe_defs demo_defs)

text \<open>
  C5.  In a successful run of loadMe the My-Team list handed to the operator has one
  record per unread entry received, in the same order: its id is the entry's team id;
  its roles are the empty string when no membership has that team id, and otherwise
  the roles of the first membership with that team id, which is the only one when team
  ids are not repeated among the memberships.
\<close>

theorem loadMe_myTeams_left_join:
  assumes "fst (loadMe w serverUrl args) = Inr r"
    and "LoadMeResult.error r = None"
  shows "\<exists>client memberships unreads myTeams.
     NetworkManager_getClient w serverUrl = Inr client \<and>
     getMyTeamMembers client = Inr memberships \<and>
     getMyTeamUnreads client = Inr unreads \<and>
     staged_myTeams (snd (loadMe w serverUrl args)) = [myTeams] \<and>
     length myTeams = length unreads \<and>
     (\<forall>i < length unreads.
        MyTeam.id' (myTeams ! i) = TeamUnread.team_id (unreads ! i) \<and>
        ((\<forall>m \<in> set memberships. TeamMembership.team_id m \<noteq> TeamUnread.team_id (unreads ! i)) \<longrightarrow>
           MyTeam.roles (myTeams ! i) = []) \<and>
        (\<forall>m \<in> set memberships.
           TeamMembership.team_id m = TeamUnread.team_id (unreads ! i) \<longrightarrow>
           (\<exists>k < length memberships.
              TeamMembership.team_id (memberships ! k) = TeamUnread.team_id (unreads ! i) \<and>
              (\<forall>j < k. TeamMembership.team_id (memberships ! j) \<noteq>
                         TeamUnread.team_id (unreads ! i)) \<and>
              MyTeam.roles (myTeams ! i) = TeamMembership.roles (memberships ! k)) \<and>
           (distinct (map TeamMembership.team_id memberships) \<longrightarrow>
              MyTeam.roles (myTeams ! i) = TeamMembership.roles m)))"
proof -
  obtain sdb :: ServerDatabase and client u models where
    client: "NetworkManager_getClient w serverUrl = Inr client"
    and prepare: "fst (loadMe_prepare w serverUrl client (operator sdb) u) = Inr models"
    and trace: "snd (loadMe w serverUrl args) =
             snd (loadMe_session w serverUrl client args) @
             snd (loadMe_prepare w serverUrl client (operator sdb) u) @
             snd (loadMe_commit (operator sdb) models)"
    using loadMe_success [OF assms] by blast
  obtain memberships unreads where
    ms: "getMyTeamMembers client = Inr memberships"
    and us: "getMyTeamUnreads client = Inr unreads"
    and staged: "staged_myTeams (snd (loadMe_prepare w serverUrl client (operator sdb) u)) =
                   [myTeams_of memberships unreads]"
  proof -
    from loadMe_prepare_success [OF prepare]
    obtain memberships unreads teams prefs config license where
      "getMyTeamMembers client = Inr memberships" "getMyTeamUnreads client = Inr unreads"
      "snd (loadMe_prepare w serverUrl client (operator sdb) u) =
         [Analytics_create serverUrl,
          Analytics_setUserId (UserProfile.id' u),
          Analytics_setUserRoles (UserProfile.roles u),
          Client_getMyTeams, Client_getMyTeamMembers, Client_getMyTeamUnreads,
          Client_getMyPreferences, Client_getClientConfigOld, Client_getClientLicenseOld,
          Operator_handleTeam teams True,
          Operator_handleTeamMemberships memberships True,
          Operator_handleMyTeam (myTeams_of memberships unreads) True,
          Operator_handleSystem
            [\<lparr>id' = CONFIG, val = config\<rparr>, \<lparr>id' = LICENSE, val = license\<rparr>,
             \<lparr>id' = CURRENT_USER_ID, val = UserProfile.id' u\<rparr>] True,
          Operator_handleUsers [u] True,
          Operator_handlePreferences prefs True] @
         snd (loadMe_roles client (operator sdb) (rolesToLoad_of u memberships))"
      by (elim exE conjE) (rule that, assumption+)
    then show ?thesis
      by (intro that [of memberships unreads])
        (simp_all add: staged_myTeams_append loadMe_roles_events)
  qed
  have 1: "staged_myTeams (snd (loadMe w serverUrl args)) = [myTeams_of memberships unreads]"
    by (simp add: trace staged_myTeams_append loadMe_session_events staged loadMe_commit_events)
  have 2: "MyTeam.id' (myTeams_of memberships unreads ! i) = TeamUnread.team_id (unreads ! i)"
    if "i < length unreads" for i
    using that by (rule myTeams_of_nth)
  have 3: "MyTeam.roles (myTeams_of memberships unreads ! i) = []"
    if "i < length unreads"
      and "\<forall>m \<in> set memberships. TeamMembership.team_id m \<noteq> TeamUnread.team_id (unreads ! i)"
    for i
    using that by (rule myTeams_of_unmatched)
  show ?thesis
    apply (rule exI [of _ client])
    apply (rule exI [of _ memberships])
    apply (rule exI [of _ unreads])
    apply (rule exI [of _ "myTeams_of memberships unreads"])
    using client ms us 1 2 3 myTeams_of_length [of memberships unreads]
    apply (intro conjI allI impI ballI)
            apply simp_all
     apply (rule myTeams_of_matched; assumption)
    apply (rule myTeams_of_matched_unique; assumption)
    done
qed

theorem loadMe_myTeams_left_join_witness:
  "fst (loadMe demo_world ''srv'' \<lparr>deviceToken = Some ''tok'', user = None\<rparr>) =
     Inr \<lparr>LoadMeResult.error = None, currentUser = Some alice\<rparr> \<and>
   getMyTeamUnreads demo_client =
     Inr [\<lparr>team_id = ''t2'', msg_count = 3, mention_count = 1\<rparr>,
          \<lparr>team_id = ''t9'', msg_count = 0, mention_count = 0\<rparr>] \<and>
   getMyTeamMembers demo_client =
     Inr [\<lparr>TeamMembership.team_id = ''t1'', roles = ''team_user team_admin''\<rparr>,
          \<lparr>TeamMembership.team_id = ''t2'', roles = ''team_user''\<rparr>] \<and>
   (\<exists>myTeams.
      staged_myTeams
        (snd (loadMe demo_world ''srv'' \<lparr>deviceToken = Some ''tok'', user = None\<rparr>)) = [myTeams] \<and>
      length myTeams = 2 \<and>
      map MyTeam.id' myTeams = [''t2'', ''t9''] \<and>
      map MyTeam.roles myTeams = [''team_user'', []])"
proof -
  have ok: "fst (loadMe demo_world ''srv'' \<lparr>deviceToken = Some ''tok'', user = None\<rparr>) =
              Inr \<lparr>LoadMeResult.error = None, currentUser = Some alice\<rparr>"
    by (simp add: demo_loadMe_srv)
  have cl: "NetworkManager_getClient demo_world ''srv'' = Inr demo_client"
    by (simp add: demo_world_def)
  have us: "getMyTeamUnreads demo_client =
     Inr [\<lparr>team_id = ''t2'', msg_count = 3, mention_count = 1\<rparr>,
          \<lparr>team_id = ''t9'', msg_count = 0, mention_count = 0\<rparr>]"
    by (simp add: demo_client_def)
  have ms: "getMyTeamMembers demo_client =
     Inr [\<lparr>TeamMembership.team_id = ''t1'', roles = ''team_user team_admin''\<rparr>,
          \<lparr>TeamMembership.team_id = ''t2'', roles = ''team_user''\<rparr>]"
    by (simp add: demo_client_def)
  obtain myTeams where
    st: "staged_myTeams
           (snd (loadMe demo_world ''srv'' \<lparr>deviceToken = Some ''tok'', user = None\<rparr>)) =
         [myTeams]"
    and len: "length myTeams = 2"
  proof -
    have "LoadMeResult.error \<lparr>LoadMeResult.error = None, currentUser = Some alice\<rparr> = None"
      by simp
    from loadMe_myTeams_left_join [OF ok this]
    obtain client memberships unreads myTeams where
      "NetworkManager_getClient demo_world ''srv'' = Inr client"
      "getMyTeamUnreads client = Inr unreads"
      "staged_myTeams
         (snd (loadMe demo_world ''srv'' \<lparr>deviceToken = Some ''tok'', user = None\<rparr>)) =
       [myTeams]"
      "length myTeams = length unreads"
      by (elim exE conjE) (rule that, assumption+)
    then show ?thesis
      using cl us by (intro that [of myTeams]) auto
  qed
  have "map MyTeam.id' myTeams = [''t2'', ''t9'']" "map MyTeam.roles myTeams = [''team_user'', []]"
    using st by (auto simp: demo_loadMe_srv)
  then have "\<exists>myTeams.
      staged_myTeams
        (snd (loadMe demo_world ''srv'' \<lparr>deviceToken = Some ''tok'', user = None\<rparr>)) = [myTeams] \<and>
      length myTeams = 2 \<and>
      map MyTeam.id' myTeams = [''t2'', ''t9''] \<and>
      map MyTeam.roles myTeams = [''team_user'', []]"
    using st len by (intro exI [of _ myTeams]) simp
  then show ?thesis
    using ok us ms by simp
qed

text \<open>
  C1.  When loadMe has a database and a client and the session block has yielded the
  current user, an exception thrown anywhere in lines 153 to 248 (analytics, the join
  of the six requests, the staging calls, the role fetch, the join of the prepared
  records) makes loadMe return that error with currentUser undefined, and no call that
  writes to the store is made: no batch commit and no non-staged \<open>handle...\<close> call.
\<close>

theorem loadMe_failure_before_commit:
  assumes "DatabaseManager_serverDatabases w serverUrl = Some sdb"
    and "NetworkManager_getClient w serverUrl = Inr client"
    and "fst (loadMe_session w serverUrl client args) = Inr (Inr u)"
    and "fst (loadMe_prepare w serverUrl client (operator sdb) u) = Inl e"
  shows "fst (loadMe w serverUrl args) =
           Inr \<lparr>LoadMeResult.error = Some e, currentUser = None\<rparr> \<and>
         batches (snd (loadMe w serverUrl args)) = [] \<and>
         filter is_store_write (snd (loadMe w serverUrl args)) = []"
proof -
  have eq: "loadMe w serverUrl args =
          (Inr \<lparr>LoadMeResult.error = Some e, currentUser = None\<rparr>,
           snd (loadMe_session w serverUrl client args) @
           snd (loadMe_prepare w serverUrl client (operator sdb) u))"
    using loadMe_after_session [OF assms(1,2,3)] assms(4) by (simp add: Let_def)
  have "filter is_store_write (snd (loadMe w serverUrl args)) = []"
    by (simp add: eq loadMe_session_events loadMe_prepare_no_store_write)
  then show ?thesis
    by (simp add: eq batches_no_store_write)
qed

text \<open>Any of the six requests rejecting is such an exception.\<close>

lemma loadMe_prepare_request_rejects:
  assumes "analytics_create w serverUrl = Inr ac"
    and "setUserId ac (UserProfile.id' u) = Inr ()"
    and "setUserRoles ac (UserProfile.roles u) = Inr ()"
    and "getMyTeams client = Inl e \<or> getMyTeamMembers client = Inl e \<or>
         getMyTeamUnreads client = Inl e \<or> getMyPreferences client = Inl e \<or>
         getClientConfigOld client = Inl e \<or> getClientLicenseOld client = Inl e"
  shows "\<exists>e'. fst (loadMe_prepare w serverUrl client op u) = Inl e'"
  using assms unfolding loadMe_prepare_def
  by (auto simp: fst_io_bind invoke_def await_def call_eq split: sum.splits)

theorem loadMe_failure_before_commit_witness:
  "DatabaseManager_serverDatabases demo_world ''badcfg'' =
     Some \<lparr>database = ''badcfg'', operator = demo_operator\<rparr> \<and>
   getClientConfigOld (demo_client\<lparr>getClientConfigOld := Inl ''config failed''\<rparr>) =
     Inl ''config failed'' \<and>
   fst (loadMe demo_world ''badcfg'' \<lparr>deviceToken = Some ''tok'', user = None\<rparr>) =
     Inr \<lparr>LoadMeResult.error = Some ''config failed'', currentUser = None\<rparr> \<and>
   batches (snd (loadMe demo_world ''badcfg'' \<lparr>deviceToken = Some ''tok'', user = None\<rparr>)) = [] \<and>
   filter is_store_write
     (snd (loadMe demo_world ''badcfg'' \<lparr>deviceToken = Some ''tok'', user = None\<rparr>)) = [] \<and>
   batches (snd (loadMe demo_world ''srv'' \<lparr>deviceToken = Some ''tok'', user = None\<rparr>)) \<noteq> []"
proof -
  let ?client = "demo_client\<lparr>getClientConfigOld := Inl ''config failed''\<rparr>"
  let ?args = "\<lparr>deviceToken = Some ''tok'', user = None\<rparr>"
  have db: "DatabaseManager_serverDatabases demo_world ''badcfg'' =
              Some \<lparr>database = ''badcfg'', operator = demo_operator\<rparr>"
    by (simp add: demo_world_def)
  have cl: "NetworkManager_getClient demo_world ''badcfg'' = Inr ?client"
    by (simp add: demo_world_def)
  have se: "fst (loadMe_session demo_world ''badcfg'' ?client ?args) = Inr (Inr alice)"
    by (simp add: loadMe_session_def demo_defs io_bind_def try_catch_def io_return_def call_eq)
  have pr: "fst (loadMe_prepare demo_world ''badcfg'' ?client
                   (operator \<lparr>database = ''badcfg'', operator = demo_operator\<rparr>) alice) =
              Inl ''config failed''"
    by (simp add: loadMe_prepare_def demo_defs io_bind_def io_return_def invoke_def await_def
          call_eq)
  have "batches (snd (loadMe demo_world ''srv'' ?args)) \<noteq> []"
    by (simp add: demo_loadMe_srv)
  then show ?thesis
    using db loadMe_failure_before_commit [OF db cl se pr] by simp
qed

text \<open>So is a rejected role fetch, and a staging call whose promise rejects.\<close>

lemma loadMe_prepare_role_fetch_rejects:
  assumes "analytics_create w serverUrl = Inr ac"
    and "setUserId ac (UserProfile.id' u) = Inr ()"
    and "setUserRoles ac (UserProfile.roles u) = Inr ()"
    and "getMyTeams client = Inr teams" and "getMyTeamMembers client = Inr memberships"
    and "getMyTeamUnreads client = Inr unreads" and "getMyPreferences client = Inr prefs"
    and "getClientConfigOld client = Inr config" and "getClientLicenseOld client = Inr license"
    and "getRolesByNames client (rolesToLoad_of u memberships) = Inl e"
    and "rolesToLoad_of u memberships \<noteq> []"
  shows "fst (loadMe_prepare w serverUrl client op u) = Inl e"
  using assms unfolding loadMe_prepare_def loadMe_roles_def
  by (simp add: fst_io_bind invoke_def await_def call_eq Let_def)

lemma loadMe_prepare_staging_rejects:
  assumes "analytics_create w serverUrl = Inr ac"
    and "setUserId ac (UserProfile.id' u) = Inr ()"
    and "setUserRoles ac (UserProfile.roles u) = Inr ()"
    and "getMyTeams client = Inr teams" and "getMyTeamMembers client = Inr memberships"
    and "getMyTeamUnreads client = Inr unreads" and "getMyPreferences client = Inr prefs"
    and "getClientConfigOld client = Inr config" and "getClientLicenseOld client = Inr license"
    and "handleTeam op teams True = Inl e \<or>
         handleTeamMemberships op memberships True = Inl e \<or>
         handleMyTeam op (myTeams_of memberships unreads) True = Inl e \<or>
         handleSystem op
           [\<lparr>id' = CONFIG, val = config\<rparr>, \<lparr>id' = LICENSE, val = license\<rparr>,
            \<lparr>id' = CURRENT_USER_ID, val = UserProfile.id' u\<rparr>] True = Inl e \<or>
         handleUsers op [u] True = Inl e \<or>
         handlePreferences op prefs True = Inl e"
  shows "\<exists>e'. fst (loadMe_prepare w serverUrl client op u) = Inl e'"
  using assms unfolding loadMe_prepare_def
  by (auto simp: fst_io_bind invoke_def await_def call_eq Let_def split: sum.splits)

subsection \<open>The role names\<close>

lemma foldl_snoc: "foldl (\<lambda>acc x. acc @ [x]) acc xs = acc @ xs"
  by (induction xs arbitrary: acc) simp_all

lemma foldl_append_image: "foldl (\<lambda>acc x. acc @ f x) acc xs = acc @ concat (map f xs)"
  by (induction xs arbitrary: acc) simp_all

lemma rolesToLoad_of_eq:
  "rolesToLoad_of u memberships =
     new_Set (String_split CHR '' '' (UserProfile.roles u) @
              concat (map (\<lambda>m. String_split CHR '' '' (TeamMembership.roles m)) memberships))"
  by (simp add: rolesToLoad_of_def Let_def foldl_snoc foldl_append_image)

text \<open>
  The set is the union of the pieces that \<open>split\<close> gives for the user's role string
  and for each membership's role string, each piece once.
\<close>

lemma set_rolesToLoad_of:
  "set (rolesToLoad_of u memberships) =
     set (String_split CHR '' '' (UserProfile.roles u)) \<union>
     (\<Union>m \<in> set memberships. set (String_split CHR '' '' (TeamMembership.roles m)))"
  by (simp add: rolesToLoad_of_eq set_new_Set)

lemma distinct_rolesToLoad_of: "distinct (rolesToLoad_of u memberships)"
  by (simp add: rolesToLoad_of_eq distinct_new_Set)

text \<open>
  It is never empty, because \<open>split\<close> never returns an empty array: the test
  \<open>rolesToLoad.size > 0\<close> cannot fail.
\<close>

lemma rolesToLoad_of_not_Nil: "rolesToLoad_of u memberships \<noteq> []"
proof -
  have "set (rolesToLoad_of u memberships) \<noteq> {}"
    using String_split_not_Nil [of "CHR '' ''" "UserProfile.roles u"]
    by (simp add: set_rolesToLoad_of)
  then show ?thesis by auto
qed

text \<open>On an empty set the guarded block makes no call and stages no role.\<close>

lemma loadMe_roles_empty: "loadMe_roles client op [] = (Inr [], [])"
  by (simp add: loadMe_roles_def io_return_def)

text \<open>
  So every successful run of loadMe makes exactly one role fetch, for the set above.
\<close>

lemma loadMe_role_fetch_never_skipped:
  assumes "fst (loadMe w serverUrl args) = Inr r"
    and "LoadMeResult.error r = None"
  shows "\<exists>client memberships u.
     NetworkManager_getClient w serverUrl = Inr client \<and>
     getMyTeamMembers client = Inr memberships \<and>
     currentUser r = Some u \<and>
     role_fetches (snd (loadMe w serverUrl args)) = [rolesToLoad_of u memberships]"
proof -
  obtain sdb :: ServerDatabase and client u models where
    client: "NetworkManager_getClient w serverUrl = Inr client"
    and prepare: "fst (loadMe_prepare w serverUrl client (operator sdb) u) = Inr models"
    and r: "r = \<lparr>LoadMeResult.error = None, currentUser = Some u\<rparr>"
    and trace: "snd (loadMe w serverUrl args) =
             snd (loadMe_session w serverUrl client args) @
             snd (loadMe_prepare w serverUrl client (operator sdb) u) @
             snd (loadMe_commit (operator sdb) models)"
    using loadMe_success [OF assms] by blast
  obtain memberships where
    ms: "getMyTeamMembers client = Inr memberships"
    and fetches: "role_fetches (snd (loadMe_prepare w serverUrl client (operator sdb) u)) =
                   [rolesToLoad_of u memberships]"
    using loadMe_prepare_success [OF prepare]
    by (auto simp: role_fetches_append loadMe_roles_events rolesToLoad_of_not_Nil)
  have "role_fetches (snd (loadMe w serverUrl args)) = [rolesToLoad_of u memberships]"
    by (simp add: trace role_fetches_append loadMe_session_events fetches loadMe_commit_events)
  then show ?thesis
    using client ms r by auto
qed

text \<open>
  C6, at an input where the code departs from it.  The user has the empty role string
  and belongs to no team, so there is no role name to resolve; loadMe still asks the
  server for roles, with the single name \<open>''''\<close>.
\<close>

theorem loadMe_fetches_roles_for_user_without_roles:
  "UserProfile.roles nobody = [] \<and>
   NetworkManager_getClient demo_world ''bare'' =
     Inr (demo_client\<lparr>getMyTeams := Inr [], getMyTeamMembers := Inr [],
                       getMyTeamUnreads := Inr []\<rparr>) \<and>
   rolesToLoad_of nobody [] = [[]] \<and>
   fst (loadMe demo_world ''bare'' \<lparr>deviceToken = None, user = Some nobody\<rparr>) =
     Inr \<lparr>LoadMeResult.error = None, currentUser = Some nobody\<rparr> \<and>
   role_fetches (snd (loadMe demo_world ''bare'' \<lparr>deviceToken = None, user = Some nobody\<rparr>)) =
     [[[]]]"
  by (simp add: demo_loadMe_bare)
    (simp add: demo_world_def nobody_def rolesToLoad_of_def new_Set_def Set_add_def)

section \<open>Properties of updateMe\<close>

text \<open>
  C7, as the code has it.  Whenever patchMe returns a profile whose role string
  splits at the spaces into role names only, none of the pieces being empty, updateMe
  makes three calls: the patch, the non-staged upsert of the returned profile, and
  fetchRolesIfNeeded with those role names.  The role string the user had before plays
  no part: the calls are the same for every previous role string, changed or not.
\<close>

theorem updateMe_refreshes_roles_changed_or_not:
  assumes "DatabaseManager_serverDatabases w serverUrl = Some sdb"
    and "NetworkManager_getClient w serverUrl = Inr client"
    and "patchMe client (raw user') = Inr (Some d)"
    and "[] \<notin> set (String_split CHR '' '' (UserProfile.roles d))"
  shows "snd (updateMe w serverUrl user') =
           [Client_patchMe (raw user'),
            Operator_handleUsers [d] False,
            FetchRolesIfNeeded serverUrl (String_split CHR '' '' (UserProfile.roles d))] \<and>
         role_refreshes (snd (updateMe w serverUrl user')) =
           [String_split CHR '' '' (UserProfile.roles d)] \<and>
         updateMe w serverUrl (user'\<lparr>UserModel.roles := previous\<rparr>) = updateMe w serverUrl user'"
proof -
  have "String_split CHR '' '' (UserProfile.roles d) \<noteq> []"
    by (rule String_split_not_Nil)
  then have "snd (updateMe w serverUrl user') =
           [Client_patchMe (raw user'),
            Operator_handleUsers [d] False,
            FetchRolesIfNeeded serverUrl (String_split CHR '' '' (UserProfile.roles d))]"
    using assms(1,2,3)
    by (simp add: updateMe_def io_bind_def try_catch_def io_return_def invoke_def call_eq Let_def
          split: sum.splits)
  moreover have "updateMe w serverUrl (user'\<lparr>UserModel.roles := previous\<rparr>) =
                   updateMe w serverUrl user'"
    by (simp add: updateMe_def split: option.splits sum.splits)
  ultimately show ?thesis
    by simp
qed

lemma demo_updateMe:
  "updateMe demo_world ''srv'' \<lparr>raw = ''{}'', roles = ''system_user''\<rparr> =
     (Inr \<lparr>data = Some alice, error = None\<rparr>,
      [Client_patchMe ''{}'', Operator_handleUsers [alice] False,
       FetchRolesIfNeeded ''srv'' [''system_user'']])"
  by (simp add: updateMe_def demo_defs io_bind_def try_catch_def io_return_def invoke_def
        call_eq Let_def)

theorem updateMe_refreshes_roles_changed_or_not_witness:
  "DatabaseManager_serverDatabases demo_world ''srv'' =
     Some \<lparr>database = ''srv'', operator = demo_operator\<rparr> \<and>
   NetworkManager_getClient demo_world ''srv'' = Inr demo_client \<and>
   patchMe demo_client (raw \<lparr>raw = ''{}'', roles = ''team_user''\<rparr>) = Inr (Some alice) \<and>
   String_split CHR '' '' (UserProfile.roles alice) = [''system_user''] \<and>
   [] \<notin> set (String_split CHR '' '' (UserProfile.roles alice)) \<and>
   snd (updateMe demo_world ''srv'' \<lparr>raw = ''{}'', roles = ''team_user''\<rparr>) =
     [Client_patchMe ''{}'', Operator_handleUsers [alice] False,
      FetchRolesIfNeeded ''srv'' [''system_user'']] \<and>
   updateMe demo_world ''srv'' \<lparr>raw = ''{}'', roles = ''system_user''\<rparr> =
     updateMe demo_world ''srv'' \<lparr>raw = ''{}'', roles = ''team_user''\<rparr>"
proof -
  have db: "DatabaseManager_serverDatabases demo_world ''srv'' =
              Some \<lparr>database = ''srv'', operator = demo_operator\<rparr>"
    by (simp add: demo_world_def)
  have cl: "NetworkManager_getClient demo_world ''srv'' = Inr demo_client"
    by (simp add: demo_world_def)
  have pa: "patchMe demo_client (raw \<lparr>raw = ''{}'', roles = ''team_user''\<rparr>) = Inr (Some alice)"
    by (simp add: demo_client_def)
  have sp: "String_split CHR '' '' (UserProfile.roles alice) = [''system_user'']"
    by (simp add: alice_def)
  have ne: "[] \<notin> set (String_split CHR '' '' (UserProfile.roles alice))"
    by (simp add: sp)
  show ?thesis
    using db cl pa sp ne
      updateMe_refreshes_roles_changed_or_not [OF db cl pa ne, of "''system_user''"]
    by simp
qed

text \<open>
  C7, as stated, fails: the returned role string equals the previous one, and
  fetchRolesIfNeeded is called all the same.
\<close>

theorem updateMe_refreshes_unchanged_roles:
  "UserProfile.roles alice = UserModel.roles \<lparr>raw = ''{}'', roles = ''system_user''\<rparr> \<and>
   fst (updateMe demo_world ''srv'' \<lparr>raw = ''{}'', roles = ''system_user''\<rparr>) =
     Inr \<lparr>data = Some alice, error = None\<rparr> \<and>
   role_refreshes (snd (updateMe demo_world ''srv'' \<lparr>raw = ''{}'', roles = ''system_user''\<rparr>)) =
     [[''system_user'']]"
  by (simp add: demo_updateMe) (simp add: alice_def)

section \<open>Missing client, missing database\<close>

lemma Promise_all_map_quiet:
  "(\<And>x. x \<in> set xs \<Longrightarrow> f x = (Inr (g x), [])) \<Longrightarrow>
   Promise_all (map f xs) = (Inr (map g xs), [])"
  by (induction xs) simp_all

lemma try_catch_returns:
  "(\<And>e. \<exists>r. fst (h e) = Inr r) \<Longrightarrow> \<exists>r. fst (try_catch m h) = Inr r"
  by (simp add: fst_try_catch split: sum.splits)

lemma fetchProfilesPerChannels_returns:
  "\<exists>r. fst (fetchProfilesPerChannels w serverUrl cs x fetchOnly) = Inr r"
  unfolding fetchProfilesPerChannels_def
  by (rule try_catch_returns) (simp add: io_return_def)

lemma fetchProfilesPerChannels_no_client:
  assumes "NetworkManager_getClient w serverUrl = Inl e"
  shows "fetchProfilesPerChannels w serverUrl cs x True =
           (Inr \<lparr>ProfilesPerChannelRequest.data =
                   Some (map (\<lambda>c. \<lparr>users = None, channelId = c, error = Some e\<rparr>) cs),
                 ProfilesPerChannelRequest.error = None\<rparr>, [])"
proof -
  have "Promise_all (map (\<lambda>id. fetchProfilesInChannel w serverUrl id x True) cs) =
          (Inr (map (\<lambda>c. \<lparr>users = None, channelId = c, error = Some e\<rparr>) cs), [])"
    by (rule Promise_all_map_quiet) (simp add: fetchProfilesInChannel_fetchOnly_eq assms)
  then show ?thesis
    by (simp add: fetchProfilesPerChannels_def Let_def io_bind_def try_catch_def io_return_def)
qed

lemma no_database_fetch_only:
  assumes "DatabaseManager_serverDatabases w serverUrl = None"
  shows "fetchMe w serverUrl False = fetchMe w serverUrl True"
    and "fetchProfilesInChannel w serverUrl c x False = fetchProfilesInChannel w serverUrl c x True"
    and "fetchProfilesPerChannels w serverUrl cs x False =
           fetchProfilesPerChannels w serverUrl cs x True"
  using assms
  by (simp_all add: fetchMe_def fetchProfilesInChannel_def fetchProfilesPerChannels_def
        cong: sum.case_cong)

text \<open>
  C8, as the code has it.  A missing client or database is never thrown.  With no
  client, fetchMe and fetchProfilesInChannel return the error at once, and so do loadMe
  and updateMe when the database is there; fetchProfilesPerChannels returns normally,
  and in fetch-only mode its result has no error of its own: every channel entry
  carries the error.  With no database, loadMe and updateMe return the error
  \<open>database not found\<close> at once, while the three fetch functions do not treat it
  as a failure: they behave exactly as in fetch-only mode.
\<close>

theorem missing_resources_are_returned:
  "(NetworkManager_getClient w serverUrl = Inl e \<longrightarrow>
      fetchMe w serverUrl fetchOnly = (Inr \<lparr>user = None, error = Some e\<rparr>, []) \<and>
      fetchProfilesInChannel w serverUrl channelId' excludeUserId fetchOnly =
        (Inr \<lparr>users = None, channelId = channelId', error = Some e\<rparr>, []) \<and>
      fetchProfilesPerChannels w serverUrl channelIds excludeUserId True =
        (Inr \<lparr>ProfilesPerChannelRequest.data =
                Some (map (\<lambda>c. \<lparr>users = None, channelId = c, error = Some e\<rparr>) channelIds),
              ProfilesPerChannelRequest.error = None\<rparr>, []) \<and>
      (\<exists>r. fst (fetchProfilesPerChannels w serverUrl channelIds excludeUserId fetchOnly) = Inr r) \<and>
      (DatabaseManager_serverDatabases w serverUrl \<noteq> None \<longrightarrow>
         loadMe w serverUrl args =
           (Inr \<lparr>LoadMeResult.error = Some e, currentUser = None\<rparr>, []) \<and>
         updateMe w serverUrl user' = (Inr \<lparr>data = None, error = Some e\<rparr>, []))) \<and>
   (DatabaseManager_serverDatabases w serverUrl = None \<longrightarrow>
      loadMe w serverUrl args =
        (Inr \<lparr>LoadMeResult.error = Some (serverUrl @ '' database not found''),
              currentUser = None\<rparr>, []) \<and>
      updateMe w serverUrl user' =
        (Inr \<lparr>data = None, error = Some (serverUrl @ '' database not found'')\<rparr>, []) \<and>
      fetchMe w serverUrl False = fetchMe w serverUrl True \<and>
      fetchProfilesInChannel w serverUrl channelId' excludeUserId False =
        fetchProfilesInChannel w serverUrl channelId' excludeUserId True \<and>
      fetchProfilesPerChannels w serverUrl channelIds excludeUserId False =
        fetchProfilesPerChannels w serverUrl channelIds excludeUserId True)"
proof (intro conjI impI)
  assume c: "NetworkManager_getClient w serverUrl = Inl e"
  show "fetchMe w serverUrl fetchOnly = (Inr \<lparr>user = None, error = Some e\<rparr>, [])"
    using c by (simp add: fetchMe_def io_return_def)
  show "fetchProfilesInChannel w serverUrl channelId' excludeUserId fetchOnly =
        (Inr \<lparr>users = None, channelId = channelId', error = Some e\<rparr>, [])"
    using c by (simp add: fetchProfilesInChannel_def io_return_def)
  show "fetchProfilesPerChannels w serverUrl channelIds excludeUserId True =
        (Inr \<lparr>ProfilesPerChannelRequest.data =
                Some (map (\<lambda>c. \<lparr>users = None, channelId = c, error = Some e\<rparr>) channelIds),
              ProfilesPerChannelRequest.error = None\<rparr>, [])"
    using c by (rule fetchProfilesPerChannels_no_client)
  show "\<exists>r. fst (fetchProfilesPerChannels w serverUrl channelIds excludeUserId fetchOnly) = Inr r"
    by (rule fetchProfilesPerChannels_returns)
  assume d: "DatabaseManager_serverDatabases w serverUrl \<noteq> None"
  show "loadMe w serverUrl args =
           (Inr \<lparr>LoadMeResult.error = Some e, currentUser = None\<rparr>, [])"
    using c d by (auto simp: loadMe_def io_return_def)
  show "updateMe w serverUrl user' = (Inr \<lparr>data = None, error = Some e\<rparr>, [])"
    using c d by (auto simp: updateMe_def io_return_def)
next
  assume d: "DatabaseManager_serverDatabases w serverUrl = None"
  show "loadMe w serverUrl args =
        (Inr \<lparr>LoadMeResult.error = Some (serverUrl @ '' database not found''),
              currentUser = None\<rparr>, [])"
    using d by (simp add: loadMe_def io_return_def)
  show "updateMe w serverUrl user' =
        (Inr \<lparr>data = None, error = Some (serverUrl @ '' database not found'')\<rparr>, [])"
    using d by (simp add: updateMe_def io_return_def)
  show "fetchMe w serverUrl False = fetchMe w serverUrl True"
    using d by (rule no_database_fetch_only)
  show "fetchProfilesInChannel w serverUrl channelId' excludeUserId False =
        fetchProfilesInChannel w serverUrl channelId' excludeUserId True"
    using d by (rule no_database_fetch_only)
  show "fetchProfilesPerChannels w serverUrl channelIds excludeUserId False =
        fetchProfilesPerChannels w serverUrl channelIds excludeUserId True"
    using d by (rule no_database_fetch_only)
qed

theorem missing_resources_are_returned_witness:
  "NetworkManager_getClient demo_world ''noclient'' = Inl ''client for noclient not found'' \<and>
   DatabaseManager_serverDatabases demo_world ''noclient'' \<noteq> None \<and>
   fetchMe demo_world ''noclient'' False =
     (Inr \<lparr>user = None, error = Some ''client for noclient not found''\<rparr>, []) \<and>
   loadMe demo_world ''noclient'' \<lparr>deviceToken = None, user = None\<rparr> =
     (Inr \<lparr>LoadMeResult.error = Some ''client for noclient not found'', currentUser = None\<rparr>,
      []) \<and>
   updateMe demo_world ''noclient'' \<lparr>raw = ''{}'', roles = ''system_user''\<rparr> =
     (Inr \<lparr>data = None, error = Some ''client for noclient not found''\<rparr>, []) \<and>
   DatabaseManager_serverDatabases demo_world ''nodb'' = None \<and>
   loadMe demo_world ''nodb'' \<lparr>deviceToken = None, user = None\<rparr> =
     (Inr \<lparr>LoadMeResult.error = Some ''nodb database not found'', currentUser = None\<rparr>, []) \<and>
   updateMe demo_world ''nodb'' \<lparr>raw = ''{}'', roles = ''system_user''\<rparr> =
     (Inr \<lparr>data = None, error = Some ''nodb database not found''\<rparr>, []) \<and>
   fetchMe demo_world ''nodb'' False = fetchMe demo_world ''nodb'' True"
proof -
  have c: "NetworkManager_getClient demo_world ''noclient'' = Inl ''client for noclient not found''"
    by (simp add: demo_world_def)
  have d: "DatabaseManager_serverDatabases demo_world ''noclient'' \<noteq> None"
    by (simp add: demo_world_def)
  have n: "DatabaseManager_serverDatabases demo_world ''nodb'' = None"
    by (simp add: demo_world_def)
  show ?thesis
    using c d n
      missing_resources_are_returned
        [of demo_world "''noclient''" "''client for noclient not found''" False "''c1''" None
           "[''c1'']" "\<lparr>deviceToken = None, user = None\<rparr>"
           "\<lparr>raw = ''{}'', roles = ''system_user''\<rparr>"]
      missing_resources_are_returned
        [of demo_world "''nodb''" "''x''" False "''c1''" None
           "[''c1'']" "\<lparr>deviceToken = None, user = None\<rparr>"
           "\<lparr>raw = ''{}'', roles = ''system_user''\<rparr>"]
    by simp
qed

text \<open>
  C8, as stated, fails: with no database registered, fetchProfilesInChannel returns
  the users and no error.
\<close>

theorem fetchProfilesInChannel_without_database_has_no_error:
  "DatabaseManager_serverDatabases demo_world ''nodb'' = None \<and>
   fetchProfilesInChannel demo_world ''nodb'' ''c1'' None False =
     (Inr \<lparr>users = Some [alice, bob], channelId = ''c1'', error = None\<rparr>,
      [Client_getProfilesInChannel ''c1''])"
  by (simp add: fetchProfilesInChannel_def demo_defs io_bind_def try_catch_def io_return_def
        call_eq new_Set_def Set_add_def)

end
